theory Spec2Isabelle
  imports Complex_Main "HOL-Library.Word"
begin

unbundle bit_operations_syntax

section \<open>Pixel buffers\<close>

text \<open>
  A \<open>cv::Mat\<close> is modelled by its dimensions and its elements, row by row. An 8-bit
  sample is an \<open>8 word\<close>; a \<open>CV_8UC3\<close> pixel (\<open>cv::Vec3b\<close>) is a triple of samples.
  The C++ \<open>float\<close> scalars of the sources (strengths, weights, metric values) are
  modelled by exact rationals.
\<close>

type_synonym uchar = "8 word"
type_synonym Vec3b = "uchar \<times> uchar \<times> uchar"

record 'a Mat =
  rows :: nat
  cols :: nat
  elems :: "'a list list"

type_synonym ImageData = "Vec3b Mat"
type_synonym MaskImage = "uchar Mat"
type_synonym FloatImage = "rat Mat"

text \<open>The representation invariant: \<open>rows\<close> rows of \<open>cols\<close> elements each.\<close>

definition mat_wf :: "'a Mat \<Rightarrow> bool" where
  "mat_wf m \<longleftrightarrow> length (elems m) = rows m \<and> list_all (\<lambda>r. length r = cols m) (elems m)"

text \<open>\<open>cv::Mat()\<close>, \<open>Mat::empty()\<close>, \<open>Mat::clone()\<close> (a deep copy is the same value).\<close>

definition Mat_default :: "'a Mat" where
  "Mat_default = \<lparr>rows = 0, cols = 0, elems = []\<rparr>"

definition empty_mat :: "'a Mat \<Rightarrow> bool" where
  "empty_mat m \<longleftrightarrow> rows m = 0 \<or> cols m = 0"

definition clone :: "'a Mat \<Rightarrow> 'a Mat" where
  "clone m = m"

definition same_size :: "'a Mat \<Rightarrow> 'b Mat \<Rightarrow> bool" where
  "same_size a b \<longleftrightarrow> rows a = rows b \<and> cols a = cols b"

text \<open>\<open>m.at(y, x)\<close> for an index inside the buffer, and the bounds the index must keep.\<close>

definition mat_at :: "'a Mat \<Rightarrow> nat \<Rightarrow> nat \<Rightarrow> 'a" where
  "mat_at m y x = elems m ! y ! x"

definition in_bounds :: "'a Mat \<Rightarrow> nat \<Rightarrow> nat \<Rightarrow> bool" where
  "in_bounds m y x \<longleftrightarrow> y < rows m \<and> x < cols m"

definition mat_set :: "'a Mat \<Rightarrow> nat \<Rightarrow> nat \<Rightarrow> 'a \<Rightarrow> 'a Mat" where
  "mat_set m y x v = m\<lparr>elems := (elems m)[y := (elems m ! y)[x := v]]\<rparr>"

definition mat_tabulate :: "nat \<Rightarrow> nat \<Rightarrow> (nat \<Rightarrow> nat \<Rightarrow> 'a) \<Rightarrow> 'a Mat" where
  "mat_tabulate r c f = \<lparr>rows = r, cols = c, elems = map (\<lambda>y. map (\<lambda>x. f y x) [0..<c]) [0..<r]\<rparr>"

definition mat_map :: "('a \<Rightarrow> 'b) \<Rightarrow> 'a Mat \<Rightarrow> 'b Mat" where
  "mat_map f m = \<lparr>rows = rows m, cols = cols m, elems = map (map f) (elems m)\<rparr>"

definition mat_map2 :: "('a \<Rightarrow> 'b \<Rightarrow> 'c) \<Rightarrow> 'a Mat \<Rightarrow> 'b Mat \<Rightarrow> 'c Mat" where
  "mat_map2 f a b =
     \<lparr>rows = rows a, cols = cols a,
      elems = map2 (\<lambda>ra rb. map2 f ra rb) (elems a) (elems b)\<rparr>"

section \<open>Errors\<close>

text \<open>
  A \<open>cv::Exception\<close> (a \<open>std::exception\<close>, so every \<open>catch (const std::exception&)\<close>
  of the sources handles it) carries its message. Undefined behaviour (a read outside a
  buffer, a float that does not fit the \<open>uchar\<close> it is cast to) is a failure no handler
  catches.
\<close>

datatype failure = Exception string | UndefinedBehaviour

text \<open>\<open>try { body } catch (const std::exception& e) { handler }\<close>.\<close>

fun try_catch :: "failure + 'a \<Rightarrow> (string \<Rightarrow> failure + 'a) \<Rightarrow> failure + 'a" where
  "try_catch (Inr v) h = Inr v"
| "try_catch (Inl (Exception s)) h = h s"
| "try_catch (Inl UndefinedBehaviour) h = Inl UndefinedBehaviour"

text \<open>A loop whose body can fail: the first failure ends it.\<close>

fun for_each :: "'i list \<Rightarrow> ('i \<Rightarrow> 's \<Rightarrow> failure + 's) \<Rightarrow> 's \<Rightarrow> failure + 's" where
  "for_each [] body s = Inr s"
| "for_each (i # rest) body s =
     (case body i s of Inl e \<Rightarrow> Inl e | Inr s' \<Rightarrow> for_each rest body s')"

section \<open>OpenCV primitives used by the sources\<close>

text \<open>
  The library is not part of the repository; each primitive is modelled by its documented
  per-element meaning. Of the library's argument checks, the two whose exceptions the
  sources' \<open>catch\<close> blocks are there to handle are modelled: the size check of
  \<open>addWeighted\<close> and the empty-source check of \<open>resize\<close>. The region-mask operations
  apply the element-wise primitives to arrays of one size (all derived from the same label
  map), where these are total.
\<close>

definition cv_zeros :: "nat \<Rightarrow> nat \<Rightarrow> uchar Mat" where
  "cv_zeros r c = mat_tabulate r c (\<lambda>y x. 0)"

text \<open>\<open>cv::inRange(src, Scalar(lo), Scalar(hi), dst)\<close>: 255 where \<open>lo \<le> src \<le> hi\<close>, else 0.\<close>

definition cv_inRange :: "MaskImage \<Rightarrow> int \<Rightarrow> int \<Rightarrow> MaskImage" where
  "cv_inRange src lo hi = mat_map (\<lambda>p. if lo \<le> uint p \<and> uint p \<le> hi then 255 else 0) src"

definition cv_bitwise_or :: "MaskImage \<Rightarrow> MaskImage \<Rightarrow> MaskImage" where
  "cv_bitwise_or a b = mat_map2 (\<lambda>p q. p OR q) a b"

definition cv_bitwise_and :: "MaskImage \<Rightarrow> MaskImage \<Rightarrow> MaskImage" where
  "cv_bitwise_and a b = mat_map2 (\<lambda>p q. p AND q) a b"

text \<open>\<open>~m\<close> on a \<open>cv::Mat\<close>: the bitwise complement of every sample.\<close>

definition cv_bitwise_not :: "MaskImage \<Rightarrow> MaskImage" where
  "cv_bitwise_not m = mat_map (\<lambda>p. NOT p) m"

text \<open>
  \<open>cv::dilate(src, dst, getStructuringElement(MORPH_RECT, Size(kw, kh)))\<close> with the default
  anchor (the kernel centre \<open>(kw div 2, kh div 2)\<close>) and the default border (pixels outside
  the image do not take part): the destination pixel \<open>(y, x)\<close> is the maximum of the source
  over the rows \<open>y - kh div 2 \<dots> y - kh div 2 + kh - 1\<close> and the columns
  \<open>x - kw div 2 \<dots> x - kw div 2 + kw - 1\<close> that lie inside the image.
\<close>

definition window :: "nat \<Rightarrow> nat \<Rightarrow> nat \<Rightarrow> nat list" where
  "window n k i = filter (\<lambda>j. i \<le> j + k div 2 \<and> j + k div 2 < i + k) [0..<n]"

definition cv_dilate :: "MaskImage \<Rightarrow> nat \<Rightarrow> nat \<Rightarrow> MaskImage" where
  "cv_dilate src kw kh =
     mat_tabulate (rows src) (cols src)
       (\<lambda>y x. fold max
          (concat (map (\<lambda>y'. map (\<lambda>x'. mat_at src y' x') (window (cols src) kw x))
                       (window (rows src) kh y)))
          0)"

text \<open>\<open>m(cv::Rect(0, start_row, m.cols, m.rows - start_row)) = v\<close>: fill the rows from
  \<open>start_row\<close> on.\<close>

definition fill_rows_from :: "MaskImage \<Rightarrow> nat \<Rightarrow> uchar \<Rightarrow> MaskImage" where
  "fill_rows_from m start_row v =
     m\<lparr>elems := map (\<lambda>(y, r). if start_row \<le> y then map (\<lambda>p. v) r else r)
                     (zip [0..<length (elems m)] (elems m))\<rparr>"

section \<open>The region mask deriver (face_parser.cpp)\<close>

text \<open>The loop of \<open>getRegionMask\<close> over the region indices, on the accumulated mask.\<close>

definition getRegionMask :: "MaskImage \<Rightarrow> int list \<Rightarrow> MaskImage" where
  "getRegionMask full_mask region_indices =
     (if empty_mat full_mask then Mat_default
      else fold (\<lambda>region_idx region_mask.
                   cv_bitwise_or region_mask (cv_inRange full_mask region_idx region_idx))
             region_indices (cv_zeros (rows full_mask) (cols full_mask)))"

definition getEyesMask :: "MaskImage \<Rightarrow> MaskImage" where
  "getEyesMask full_mask = getRegionMask full_mask [4, 5]"

definition getForeheadMask :: "MaskImage \<Rightarrow> MaskImage" where
  "getForeheadMask full_mask =
     (let skin_mask = cv_inRange full_mask 1 1;
          brow_mask = cv_inRange full_mask 6 7;
          dilated_brow = cv_dilate brow_mask 15 15
      in cv_bitwise_and skin_mask dilated_brow)"

definition getCheeksMask :: "MaskImage \<Rightarrow> MaskImage" where
  "getCheeksMask full_mask =
     (let skin_mask = cv_inRange full_mask 1 1;
          nose_mask = cv_inRange full_mask 2 2;
          mouth_mask = cv_inRange full_mask 10 12;
          central_mask = cv_bitwise_or nose_mask mouth_mask;
          dilated_central = cv_dilate central_mask 20 20
      in cv_bitwise_and skin_mask (cv_bitwise_not dilated_central))"

definition getMouthMask :: "MaskImage \<Rightarrow> MaskImage" where
  "getMouthMask full_mask = getRegionMask full_mask [10, 11, 12]"

text \<open>
  \<open>static_cast<int>(rows * 0.6)\<close> truncates; \<open>rows\<close> is not negative, and the double
  product truncates to the integer \<open>rows * 6 div 10\<close>.
\<close>

definition getJawMask :: "MaskImage \<Rightarrow> MaskImage" where
  "getJawMask full_mask =
     (let skin_mask = cv_inRange full_mask 1 1;
          lower_mask = cv_zeros (rows full_mask) (cols full_mask);
          start_row = rows full_mask * 6 div 10;
          lower_mask = fill_rows_from lower_mask start_row 255
      in cv_bitwise_and skin_mask lower_mask)"

definition getNeckMask :: "MaskImage \<Rightarrow> MaskImage" where
  "getNeckMask full_mask = getRegionMask full_mask [17]"

definition getHairMask :: "MaskImage \<Rightarrow> MaskImage" where
  "getHairMask full_mask = getRegionMask full_mask [13]"

definition getEyebrowsMask :: "MaskImage \<Rightarrow> MaskImage" where
  "getEyebrowsMask full_mask = getRegionMask full_mask [6, 7]"


section \<open>Data model (types.h)\<close>

record FaceBox =
  box_x :: rat
  box_y :: rat
  box_width :: rat
  box_height :: rat
  confidence :: rat
  face_id :: int

record FaceLandmarks =
  points :: "(rat \<times> rat) list"
  landmarks_confidence :: rat

record Face =
  box :: FaceBox
  landmarks :: FaceLandmarks
  aligned_crop :: ImageData
  transform_matrix :: FloatImage
  track_id :: int
  frame_number :: int

record AgeMap =
  global_age_map :: FloatImage
  region_masks :: "MaskImage list"
  global_strength :: rat
  region_strengths :: "rat list"

record AgeControls =
  target_age :: rat
  age_map :: AgeMap
  identity_lock_strength :: rat
  temporal_stability :: rat
  texture_keep :: rat
  skin_clean :: rat
  enable_hair_aging :: bool
  enable_beard_aging :: bool
  enable_neck_aging :: bool
  gray_density :: rat

datatype ProcessingMode = FEEDFORWARD | DIFFUSION | HYBRID | AUTO

record FrameContext =
  ctx_frame_number :: int
  input_frame :: ImageData
  detected_faces :: "Face list"
  optical_flow :: FloatImage
  controls :: AgeControls
  mode :: ProcessingMode

record ProcessingResult =
  output_frame :: ImageData
  processed_faces :: "Face list"
  metrics :: "string \<rightharpoonup> rat"
  success :: bool
  error_message :: string

text \<open>
  A default-constructed \<open>ProcessingResult\<close>: an empty frame, no faces, no metrics, an empty
  message. types.h leaves \<open>success\<close> without an initialiser; every path of the engine that
  returns a result assigns it, and the model starts it at \<open>False\<close>.
\<close>

definition ProcessingResult_default :: ProcessingResult where
  "ProcessingResult_default =
     \<lparr>output_frame = Mat_default, processed_faces = [], metrics = Map.empty,
      success = False, error_message = []\<rparr>"

section \<open>The feedforward generator (feedforward_generator.cpp)\<close>

text \<open>\<open>cvRound\<close> (to nearest, ties to even) and \<open>cv::saturate_cast<uchar>\<close>.\<close>

definition cvRound :: "rat \<Rightarrow> int" where
  "cvRound r =
     (let f = \<lfloor>r\<rfloor>; d = r - of_int f
      in if d < 1 / 2 then f else if 1 / 2 < d then f + 1 else if even f then f else f + 1)"

definition saturate_cast_uchar :: "int \<Rightarrow> uchar" where
  "saturate_cast_uchar i = (if i < 0 then 0 else if 255 < i then 255 else word_of_int i)"

text \<open>
  \<open>static_cast<uchar>(f)\<close> of a float truncates towards zero; the behaviour is undefined
  when the truncated value is not a \<open>uchar\<close> value (\<open>None\<close>).
\<close>

definition truncate_rat :: "rat \<Rightarrow> int" where
  "truncate_rat r = (if 0 \<le> r then \<lfloor>r\<rfloor> else \<lceil>r\<rceil>)"

definition static_cast_uchar :: "rat \<Rightarrow> uchar option" where
  "static_cast_uchar r =
     (let t = truncate_rat r in if 0 \<le> t \<and> t \<le> 255 then Some (word_of_int t) else None)"

definition uchar_to_rat :: "uchar \<Rightarrow> rat" where
  "uchar_to_rat p = of_nat (unat p)"

text \<open>
  \<open>cv::addWeighted(src1, alpha, src2, beta, gamma, dst)\<close>: arrays of different sizes raise
  a \<open>cv::Exception\<close>; otherwise every sample is
  \<open>saturate_cast<uchar>(src1 * alpha + src2 * beta + gamma)\<close>.
\<close>

definition weighted_sample :: "rat \<Rightarrow> rat \<Rightarrow> rat \<Rightarrow> uchar \<Rightarrow> uchar \<Rightarrow> uchar" where
  "weighted_sample alpha beta gamma a b =
     saturate_cast_uchar (cvRound (uchar_to_rat a * alpha + uchar_to_rat b * beta + gamma))"

fun weighted_pixel :: "rat \<Rightarrow> rat \<Rightarrow> rat \<Rightarrow> Vec3b \<Rightarrow> Vec3b \<Rightarrow> Vec3b" where
  "weighted_pixel alpha beta gamma (a0, a1, a2) (b0, b1, b2) =
     (weighted_sample alpha beta gamma a0 b0, weighted_sample alpha beta gamma a1 b1,
      weighted_sample alpha beta gamma a2 b2)"

definition cv_addWeighted ::
  "ImageData \<Rightarrow> rat \<Rightarrow> ImageData \<Rightarrow> rat \<Rightarrow> rat \<Rightarrow> failure + ImageData" where
  "cv_addWeighted src1 alpha src2 beta gamma =
     (if \<not> same_size src1 src2 then Inl (Exception ''Sizes of input arguments do not match'')
      else Inr (mat_map2 (weighted_pixel alpha beta gamma) src1 src2))"

text \<open>\<open>mask.convertTo(mask_norm, CV_32F, 1.0/255.0)\<close>.\<close>

definition convertTo_norm :: "MaskImage \<Rightarrow> FloatImage" where
  "convertTo_norm m = mat_map (\<lambda>p. uchar_to_rat p / 255) m"

text \<open>The three channels of one blended pixel of \<open>blendRegion\<close>.\<close>

definition blend_sample :: "rat \<Rightarrow> uchar \<Rightarrow> uchar \<Rightarrow> uchar option" where
  "blend_sample aged_strength orig aged =
     static_cast_uchar (uchar_to_rat orig * (1 - aged_strength) + uchar_to_rat aged * aged_strength)"

fun blend_vec :: "rat \<Rightarrow> Vec3b \<Rightarrow> Vec3b \<Rightarrow> Vec3b option" where
  "blend_vec s (o0, o1, o2) (a0, a1, a2) =
     (case (blend_sample s o0 a0, blend_sample s o1 a1, blend_sample s o2 a2) of
        (Some b0, Some b1, Some b2) \<Rightarrow> Some (b0, b1, b2)
      | _ \<Rightarrow> None)"

text \<open>
  The body of the two loops of \<open>blendRegion\<close> at \<open>(y, x)\<close>. \<open>Mat::at\<close> does not check its
  index: a read outside \<open>mask_norm\<close> or \<open>original\<close> is undefined behaviour.
\<close>

definition blend_at ::
  "ImageData \<Rightarrow> FloatImage \<Rightarrow> rat \<Rightarrow> nat \<Rightarrow> nat \<Rightarrow> ImageData \<Rightarrow> failure + ImageData" where
  "blend_at original mask_norm aged_strength y x aged =
     (if \<not> in_bounds mask_norm y x then Inl UndefinedBehaviour
      else if 1 / 2 < mat_at mask_norm y x then
        (if \<not> in_bounds original y x then Inl UndefinedBehaviour
         else case blend_vec aged_strength (mat_at original y x) (mat_at aged y x) of
                None \<Rightarrow> Inl UndefinedBehaviour
              | Some blended_pixel \<Rightarrow> Inr (mat_set aged y x blended_pixel))
      else Inr aged)"

definition blendRegion ::
  "ImageData \<Rightarrow> ImageData \<Rightarrow> MaskImage \<Rightarrow> rat \<Rightarrow> failure + ImageData" where
  "blendRegion original aged region_mask aged_strength =
     (if empty_mat region_mask then Inr aged
      else
        (let mask_norm = convertTo_norm region_mask
         in for_each [0..<rows aged]
              (\<lambda>y. for_each [0..<cols aged] (blend_at original mask_norm aged_strength y))
              aged))"

text \<open>
  \<open>applyRegionalBlending\<close>: the four selections (the second is computed and not used) and
  the three region blends, on \<open>aged\<close> in place. The literals \<open>0.8f\<close>, \<open>0.1f\<close>, \<open>0.3f\<close>,
  \<open>0.4f\<close> are the rationals they denote.
\<close>

definition applyRegionalBlending ::
  "ImageData \<Rightarrow> ImageData \<Rightarrow> MaskImage \<Rightarrow> AgeControls \<Rightarrow> failure + ImageData" where
  "applyRegionalBlending original aged parsing_mask ctl =
     (let hair_mask = cv_inRange parsing_mask 1 1;
          forehead_mask = cv_inRange parsing_mask 2 2;
          eye_mask = cv_inRange parsing_mask 3 4;
          mouth_mask = cv_inRange parsing_mask 5 6
      in case (if enable_hair_aging ctl then blendRegion original aged hair_mask (8 / 10)
               else blendRegion original aged hair_mask (1 / 10)) of
           Inl e \<Rightarrow> Inl e
         | Inr aged1 \<Rightarrow>
             (case blendRegion original aged1 eye_mask (3 / 10) of
                Inl e \<Rightarrow> Inl e
              | Inr aged2 \<Rightarrow> blendRegion original aged2 mouth_mask (4 / 10)))"

text \<open>
  The state of a \<open>FeedforwardGenerator\<close>. \<open>ff_net\<close> stands for lines 40 to 72 of
  \<open>generateAgedFace\<close> (resize, normalise, the network's forward pass, the conversion back to
  8 bits): it gives \<open>result_uint8\<close>, or the message of the exception the steps raised. A
  result that is no 3-channel 8-bit image makes \<open>addWeighted\<close> raise inside the same
  \<open>try\<close> block and is an \<open>Inl\<close> of \<open>ff_net\<close> as well.
\<close>

record FeedforwardGenerator =
  ff_model_loaded :: bool
  ff_net :: "ImageData \<Rightarrow> AgeControls \<Rightarrow> string + ImageData"

definition generateAgedFace ::
  "FeedforwardGenerator \<Rightarrow> ImageData \<Rightarrow> AgeControls \<Rightarrow> MaskImage \<Rightarrow> failure + ImageData" where
  "generateAgedFace gen face_crop ctl parsing_mask =
     (if \<not> ff_model_loaded gen \<or> empty_mat face_crop then Inr (clone face_crop)
      else
        try_catch
          (case ff_net gen face_crop ctl of
             Inl msg \<Rightarrow> Inl (Exception msg)
           | Inr result_uint8 \<Rightarrow>
               (case cv_addWeighted face_crop (identity_lock_strength ctl)
                       result_uint8 (1 - identity_lock_strength ctl) 0 of
                  Inl e \<Rightarrow> Inl e
                | Inr final_result \<Rightarrow>
                    if \<not> empty_mat parsing_mask
                    then applyRegionalBlending face_crop final_result parsing_mask ctl
                    else Inr final_result))
          (\<lambda>msg. Inr (clone face_crop)))"


section \<open>The face parser's \<open>parseFace\<close> (face_parser.cpp) and the detector (face_detector.cpp)\<close>

text \<open>
  \<open>cv::resize(src, dst, Size(c, r), 0, 0, INTER_NEAREST)\<close>: an empty source raises;
  otherwise the destination pixel \<open>(y, x)\<close> is the source pixel at the scaled index.
\<close>

definition cv_resize_nearest :: "MaskImage \<Rightarrow> nat \<Rightarrow> nat \<Rightarrow> failure + MaskImage" where
  "cv_resize_nearest src r c =
     (if empty_mat src \<or> r = 0 \<or> c = 0 then Inl (Exception ''resize: empty array'')
      else Inr (mat_tabulate r c
                  (\<lambda>y x. mat_at src (min (y * rows src div r) (rows src - 1))
                                     (min (x * cols src div c) (cols src - 1)))))"

text \<open>
  \<open>fp_net\<close> stands for lines 37 to 53 of \<open>parseFace\<close> (resize, blob, forward pass, argmax):
  the network-sized parsing mask, or the message of the exception raised.
\<close>

record FaceParser =
  fp_model_loaded :: bool
  fp_net :: "ImageData \<Rightarrow> string + MaskImage"

definition parseFace :: "FaceParser \<Rightarrow> ImageData \<Rightarrow> MaskImage" where
  "parseFace prs face_crop =
     (if \<not> fp_model_loaded prs \<or> empty_mat face_crop
      then cv_zeros (rows face_crop) (cols face_crop)
      else
        (case fp_net prs face_crop of
           Inl msg \<Rightarrow> cv_zeros (rows face_crop) (cols face_crop)
         | Inr parsing_mask \<Rightarrow>
             (case cv_resize_nearest parsing_mask (rows face_crop) (cols face_crop) of
                Inl e \<Rightarrow> cv_zeros (rows face_crop) (cols face_crop)
              | Inr final_mask \<Rightarrow> final_mask)))"

text \<open>
  \<open>fd_net\<close> stands for the \<open>try\<close> block of \<open>detectFaces\<close> (lines 88 to 160), which catches
  its own exceptions: the faces found.
\<close>

record FaceDetector =
  fd_model_loaded :: bool
  fd_net :: "ImageData \<Rightarrow> Face list"

definition detectFaces :: "FaceDetector \<Rightarrow> ImageData \<Rightarrow> Face list" where
  "detectFaces det img =
     (if \<not> fd_model_loaded det \<or> empty_mat img then [] else fd_net det img)"

section \<open>The frame orchestrator (engine.cpp)\<close>

text \<open>
  The implementations of \<open>DiffusionEditor\<close> and \<open>Compositor\<close> are not among the sources
  (diffusion_editor.h and compositor.h declare them): their methods
  \<open>DiffusionEditor::generateAgedFace\<close> and \<open>Compositor::compositeFace\<close> are fields of the
  engine, any functions of their arguments. \<open>compositeFace\<close> mutates the frame it is given;
  the field returns the frame after the call.
\<close>

record Engine =
  initialized :: bool
  face_detector :: FaceDetector
  face_parser :: FaceParser
  feedforward_generator :: FeedforwardGenerator
  diffusion_editor :: "ImageData \<Rightarrow> AgeControls \<Rightarrow> MaskImage \<Rightarrow> failure + ImageData"
  compositor :: "ImageData \<Rightarrow> ImageData \<Rightarrow> Face \<Rightarrow> failure + ImageData"

text \<open>
  \<open>Engine::Impl::initialize\<close>: \<open>gpu_ok\<close> is what \<open>GPUMemoryManager::initialize\<close> (not among
  the sources) returns. The components are created anew, with no model loaded.
\<close>

definition initialize :: "Engine \<Rightarrow> bool \<Rightarrow> bool \<times> Engine" where
  "initialize eng gpu_ok =
     (if \<not> gpu_ok then (False, eng)
      else (True,
            eng\<lparr>initialized := True,
                face_detector := (face_detector eng)\<lparr>fd_model_loaded := False\<rparr>,
                face_parser := (face_parser eng)\<lparr>fp_model_loaded := False\<rparr>,
                feedforward_generator :=
                  (feedforward_generator eng)\<lparr>ff_model_loaded := False\<rparr>\<rparr>))"

text \<open>The local \<open>faces\<close> of \<open>processFrame\<close>: the faces given, or else the faces detected.\<close>

definition frame_faces :: "Engine \<Rightarrow> FrameContext \<Rightarrow> Face list" where
  "frame_faces eng ctx =
     (let faces = detected_faces ctx
      in if faces = [] then detectFaces (face_detector eng) (input_frame ctx) else faces)"

text \<open>The body of the loop over the faces, on the shared \<open>output_frame\<close>.\<close>

definition process_face :: "Engine \<Rightarrow> FrameContext \<Rightarrow> Face \<Rightarrow> ImageData \<Rightarrow> failure + ImageData" where
  "process_face eng ctx face output =
     (let parsing_mask = parseFace (face_parser eng) (aligned_crop face)
      in case (if mode ctx = FEEDFORWARD \<or> mode ctx = AUTO
               then generateAgedFace (feedforward_generator eng) (aligned_crop face)
                      (controls ctx) parsing_mask
               else if mode ctx = DIFFUSION
               then diffusion_editor eng (aligned_crop face) (controls ctx) parsing_mask
               else Inr Mat_default) of
           Inl e \<Rightarrow> Inl e
         | Inr processed_face \<Rightarrow> compositor eng output processed_face face)"

text \<open>
  \<open>Engine::Impl::processFrame\<close>. \<open>elapsed_ms\<close> is the count of milliseconds the two clock
  readings give. The result is \<open>Inl\<close> only for undefined behaviour: the \<open>catch\<close> turns every
  exception into a failed result.
\<close>

definition processFrame :: "Engine \<Rightarrow> int \<Rightarrow> FrameContext \<Rightarrow> failure + ProcessingResult" where
  "processFrame eng elapsed_ms ctx =
     (if \<not> initialized eng
      then Inr (ProcessingResult_default
                  \<lparr>success := False, error_message := ''Engine not initialized''\<rparr>)
      else
        try_catch
          (let faces = frame_faces eng ctx
           in if faces = []
              then Inr (ProcessingResult_default
                          \<lparr>output_frame := clone (input_frame ctx), success := True\<rparr>)
              else
                (case for_each faces (process_face eng ctx) (clone (input_frame ctx)) of
                   Inl e \<Rightarrow> Inl e
                 | Inr output \<Rightarrow>
                     Inr (ProcessingResult_default
                            \<lparr>output_frame := output, processed_faces := faces, success := True,
                             metrics := [''processing_time_ms'' \<mapsto> of_int elapsed_ms,
                                         ''faces_processed'' \<mapsto> of_nat (length faces)]\<rparr>)))
          (\<lambda>msg. Inr (ProcessingResult_default
                        \<lparr>success := False, error_message := ''Processing failed: '' @ msg\<rparr>)))"

section \<open>The minimal build (minimal_types.h, minimal_engine.cpp)\<close>

record MinImageData =
  m_width :: int
  m_height :: int
  m_channels :: int
  m_data :: "uchar list"

definition MinImageData_default :: MinImageData where
  "MinImageData_default = \<lparr>m_width = 0, m_height = 0, m_channels = 3, m_data = []\<rparr>"

definition m_empty :: "MinImageData \<Rightarrow> bool" where
  "m_empty img \<longleftrightarrow> m_width img = 0 \<or> m_height img = 0"

record MinFace =
  m_box :: FaceBox
  m_landmarks :: "(rat \<times> rat) list"
  m_aligned_crop :: MinImageData
  m_track_id :: int
  m_frame_number :: int

record MinAgeControls =
  m_target_age :: rat
  m_identity_lock_strength :: rat
  m_temporal_stability :: rat
  m_texture_keep :: rat
  m_enable_hair_aging :: bool
  m_gray_density :: rat

record MinFrameContext =
  m_ctx_frame_number :: int
  m_input_frame :: MinImageData
  m_detected_faces :: "MinFace list"
  m_controls :: MinAgeControls
  m_mode :: ProcessingMode

record MinProcessingResult =
  m_output_frame :: MinImageData
  m_processed_faces :: "MinFace list"
  m_metrics :: "string \<rightharpoonup> rat"
  m_success :: bool
  m_error_message :: string

definition MinProcessingResult_default :: MinProcessingResult where
  "MinProcessingResult_default =
     \<lparr>m_output_frame = MinImageData_default, m_processed_faces = [], m_metrics = Map.empty,
      m_success = False, m_error_message = []\<rparr>"

record MinEngine =
  me_mode :: ProcessingMode
  me_initialized :: bool

definition mockFace :: "MinFrameContext \<Rightarrow> MinFace" where
  "mockFace ctx =
     \<lparr>m_box = \<lparr>box_x = of_int (m_width (m_input_frame ctx)) * (1 / 4),
                box_y = of_int (m_height (m_input_frame ctx)) * (1 / 4),
                box_width = of_int (m_width (m_input_frame ctx)) * (1 / 2),
                box_height = of_int (m_height (m_input_frame ctx)) * (1 / 2),
                confidence = 9 / 10, face_id = 1\<rparr>,
      m_landmarks = [], m_aligned_crop = MinImageData_default,
      m_track_id = 1, m_frame_number = m_ctx_frame_number ctx\<rparr>"

definition min_processFrame :: "MinEngine \<Rightarrow> MinFrameContext \<Rightarrow> MinProcessingResult" where
  "min_processFrame eng ctx =
     (let result = MinProcessingResult_default
      in if \<not> me_initialized eng then result\<lparr>m_error_message := ''Engine not initialized''\<rparr>
         else if m_empty (m_input_frame ctx) then result\<lparr>m_error_message := ''Empty input frame''\<rparr>
         else result\<lparr>m_output_frame := m_input_frame ctx,
                     m_processed_faces := [mockFace ctx],
                     m_metrics := [''processing_time_ms'' \<mapsto> 50, ''face_count'' \<mapsto> 1,
                                   ''confidence'' \<mapsto> 9 / 10],
                     m_success := True\<rparr>)"

section \<open>The face compositor (compositor.h)\<close>

text \<open>
  Modelled from the spec: \<open>Compositor::compositeFace\<close>. compositor.h declares it and
  test_compositor.cpp calls it; its implementation is not among the sources. The spec's
  section 4.3: an empty face crop is a no-op; otherwise the crop is placed at the rectangle
  of the detection's box, only the part of the rectangle inside the frame is written, and
  the frame keeps its dimensions. What is written there (blending mode, feathering, colour
  correction, detail reinjection) the spec leaves to the implementation: \<open>render\<close> gives
  the pixel written at a position inside the rectangle.
\<close>

definition inside_box :: "Face \<Rightarrow> nat \<Rightarrow> nat \<Rightarrow> bool" where
  "inside_box face_info y x \<longleftrightarrow>
     box_x (box face_info) \<le> of_nat x \<and> of_nat x < box_x (box face_info) + box_width (box face_info) \<and>
     box_y (box face_info) \<le> of_nat y \<and> of_nat y < box_y (box face_info) + box_height (box face_info)"

definition compositeFace ::
  "(ImageData \<Rightarrow> ImageData \<Rightarrow> Face \<Rightarrow> nat \<Rightarrow> nat \<Rightarrow> Vec3b) \<Rightarrow>
   ImageData \<Rightarrow> ImageData \<Rightarrow> Face \<Rightarrow> ImageData" where
  "compositeFace render target_frame processed_face face_info =
     (if empty_mat processed_face then target_frame
      else mat_tabulate (rows target_frame) (cols target_frame)
             (\<lambda>y x. if inside_box face_info y x
                     then render target_frame processed_face face_info y x
                     else mat_at target_frame y x))"

section \<open>Properties and the spec's own wording\<close>

text \<open>A strictly binary mask: every sample is 0 or 255.\<close>

definition binary_mask :: "MaskImage \<Rightarrow> bool" where
  "binary_mask m \<longleftrightarrow> list_all (list_all (\<lambda>p. p = 0 \<or> p = 255)) (elems m)"

text \<open>
  The forehead in the spec's words: a pixel is selected when it is skin (label 1) and some
  eyebrow pixel (label 6 or 7) lies in the 15 by 15 square centred on it.
\<close>

definition forehead_spec_pixel :: "MaskImage \<Rightarrow> nat \<Rightarrow> nat \<Rightarrow> uchar" where
  "forehead_spec_pixel m y x =
     (if mat_at m y x = 1 \<and>
         (\<exists>y' \<in> set [0..<rows m]. \<exists>x' \<in> set [0..<cols m].
             y' \<le> y + 7 \<and> y \<le> y' + 7 \<and> x' \<le> x + 7 \<and> x \<le> x' + 7 \<and>
             (mat_at m y' x' = 6 \<or> mat_at m y' x' = 7))
      then 255 else 0)"

definition forehead_spec :: "MaskImage \<Rightarrow> MaskImage" where
  "forehead_spec m = mat_tabulate (rows m) (cols m) (forehead_spec_pixel m)"

definition no_eyebrows :: "MaskImage \<Rightarrow> bool" where
  "no_eyebrows m \<longleftrightarrow> list_all (list_all (\<lambda>p. p \<noteq> 6 \<and> p \<noteq> 7)) (elems m)"

text \<open>A well-formed buffer of the given dimensions.\<close>

definition shaped :: "nat \<Rightarrow> nat \<Rightarrow> 'a Mat \<Rightarrow> bool" where
  "shaped r c m \<longleftrightarrow> mat_wf m \<and> rows m = r \<and> cols m = c"

section \<open>Concrete inputs\<close>

text \<open>A 2 by 3 label map: eyebrow, skin, eye over skin, mouth, hair; and one of skin only.\<close>

definition label_map_example :: MaskImage where
  "label_map_example = \<lparr>rows = 2, cols = 3, elems = [[6, 1, 4], [1, 10, 13]]\<rparr>"

definition skin_only_example :: MaskImage where
  "skin_only_example = \<lparr>rows = 1, cols = 2, elems = [[1, 1]]\<rparr>"

text \<open>A black 1 by 2 frame and a face whose crop is one white pixel, at the frame's origin.\<close>

definition black_frame :: ImageData where
  "black_frame = \<lparr>rows = 1, cols = 2, elems = [[(0, 0, 0), (0, 0, 0)]]\<rparr>"

definition white_crop :: ImageData where
  "white_crop = \<lparr>rows = 1, cols = 1, elems = [[(255, 255, 255)]]\<rparr>"

definition composited_frame :: ImageData where
  "composited_frame = \<lparr>rows = 1, cols = 2, elems = [[(255, 255, 255), (0, 0, 0)]]\<rparr>"

definition example_controls :: AgeControls where
  "example_controls =
     \<lparr>target_age = 60,
      age_map = \<lparr>global_age_map = Mat_default, region_masks = [], global_strength = 1,
                 region_strengths = []\<rparr>,
      identity_lock_strength = 0, temporal_stability = 0, texture_keep = 0, skin_clean = 0,
      enable_hair_aging = False, enable_beard_aging = False, enable_neck_aging = False,
      gray_density = 0\<rparr>"

definition example_face :: Face where
  "example_face =
     \<lparr>box = \<lparr>box_x = 0, box_y = 0, box_width = 1, box_height = 1, confidence = 9 / 10,
              face_id = 0\<rparr>,
      landmarks = \<lparr>points = [], landmarks_confidence = 0\<rparr>,
      aligned_crop = white_crop, transform_matrix = Mat_default, track_id = 0,
      frame_number = 0\<rparr>"

definition example_context :: FrameContext where
  "example_context =
     \<lparr>ctx_frame_number = 0, input_frame = black_frame, detected_faces = [],
      optical_flow = Mat_default, controls = example_controls, mode = FEEDFORWARD\<rparr>"

definition faces_context :: FrameContext where
  "faces_context = example_context\<lparr>detected_faces := [example_face]\<rparr>"

text \<open>
  An engine as constructed (nothing initialised, no model loaded). Its compositor pastes the
  crop's first pixel over the box; its diffusion editor returns the crop.
\<close>

definition paste_first_pixel :: "ImageData \<Rightarrow> ImageData \<Rightarrow> Face \<Rightarrow> nat \<Rightarrow> nat \<Rightarrow> Vec3b" where
  "paste_first_pixel target_frame processed_face face_info y x = mat_at processed_face 0 0"

definition new_engine :: Engine where
  "new_engine =
     \<lparr>initialized = False,
      face_detector = \<lparr>fd_model_loaded = False, fd_net = (\<lambda>img. [])\<rparr>,
      face_parser = \<lparr>fp_model_loaded = False, fp_net = (\<lambda>img. Inl ''no model'')\<rparr>,
      feedforward_generator =
        \<lparr>ff_model_loaded = False, ff_net = (\<lambda>img ctl. Inl ''no model'')\<rparr>,
      diffusion_editor = (\<lambda>crop ctl m. Inr crop),
      compositor = (\<lambda>target_frame processed_face face_info.
                      Inr (compositeFace paste_first_pixel target_frame processed_face face_info))\<rparr>"

definition ready_engine :: Engine where
  "ready_engine = snd (initialize new_engine True)"

definition passthrough_result :: ProcessingResult where
  "passthrough_result = ProcessingResult_default\<lparr>output_frame := black_frame, success := True\<rparr>"

definition faces_result :: ProcessingResult where
  "faces_result =
     ProcessingResult_default
       \<lparr>output_frame := composited_frame, processed_faces := [example_face], success := True,
        metrics := [''processing_time_ms'' \<mapsto> 5, ''faces_processed'' \<mapsto> 1]\<rparr>"

text \<open>The minimal build: an engine before and after \<open>initialize\<close>, and a 1 by 1 frame.\<close>

definition min_engine_new :: MinEngine where
  "min_engine_new = \<lparr>me_mode = FEEDFORWARD, me_initialized = False\<rparr>"

definition min_engine_ready :: MinEngine where
  "min_engine_ready = \<lparr>me_mode = FEEDFORWARD, me_initialized = True\<rparr>"

definition min_context :: MinFrameContext where
  "min_context =
     \<lparr>m_ctx_frame_number = 3,
      m_input_frame = \<lparr>m_width = 1, m_height = 1, m_channels = 3, m_data = [0, 0, 0]\<rparr>,
      m_detected_faces = [],
      m_controls = \<lparr>m_target_age = 25, m_identity_lock_strength = 8 / 10,
                     m_temporal_stability = 9 / 10, m_texture_keep = 6 / 10,
                     m_enable_hair_aging = True, m_gray_density = 1 / 2\<rparr>,
      m_mode = FEEDFORWARD\<rparr>"

text \<open>The same context in hybrid mode, and what \<open>processFrame\<close> returns for it.\<close>

definition hybrid_context :: FrameContext where
  "hybrid_context = faces_context\<lparr>mode := HYBRID\<rparr>"

definition hybrid_result :: ProcessingResult where
  "hybrid_result =
     ProcessingResult_default
       \<lparr>output_frame := black_frame, processed_faces := [example_face], success := True,
        metrics := [''processing_time_ms'' \<mapsto> 5, ''faces_processed'' \<mapsto> 1]\<rparr>"

text \<open>Two 1 by 2 crops and a mask that selects the left pixel.\<close>

definition crop_a :: ImageData where
  "crop_a = \<lparr>rows = 1, cols = 2, elems = [[(10, 20, 30), (40, 50, 60)]]\<rparr>"

definition crop_b :: ImageData where
  "crop_b = \<lparr>rows = 1, cols = 2, elems = [[(200, 210, 220), (1, 2, 3)]]\<rparr>"

definition left_mask :: MaskImage where
  "left_mask = \<lparr>rows = 1, cols = 2, elems = [[255, 0]]\<rparr>"

text \<open>
  A black one-pixel crop, parsing masks that label it hair (13) and skin (1), and two
  loaded generators: one whose network answers with a white pixel, one whose network
  answers with an image wider than the crop.
\<close>

definition black_crop :: ImageData where
  "black_crop = \<lparr>rows = 1, cols = 1, elems = [[(0, 0, 0)]]\<rparr>"

definition hair_label_mask :: MaskImage where
  "hair_label_mask = \<lparr>rows = 1, cols = 1, elems = [[13]]\<rparr>"

definition skin_label_mask :: MaskImage where
  "skin_label_mask = \<lparr>rows = 1, cols = 1, elems = [[1]]\<rparr>"

definition whitening_generator :: FeedforwardGenerator where
  "whitening_generator = \<lparr>ff_model_loaded = True, ff_net = (\<lambda>img ctl. Inr white_crop)\<rparr>"

definition wide_generator :: FeedforwardGenerator where
  "wide_generator = \<lparr>ff_model_loaded = True, ff_net = (\<lambda>img ctl. Inr black_frame)\<rparr>"

section \<open>Facts about pixel buffers and the OpenCV primitives\<close>

lemma binary_maskI:
  "(\<And>r p. r \<in> set (elems m) \<Longrightarrow> p \<in> set r \<Longrightarrow> p = 0 \<or> p = 255) \<Longrightarrow> binary_mask m"
  by (auto simp: binary_mask_def list_all_iff)

lemma binary_maskD:
  "binary_mask m \<Longrightarrow> r \<in> set (elems m) \<Longrightarrow> p \<in> set r \<Longrightarrow> p = 0 \<or> p = 255"
  by (auto simp: binary_mask_def list_all_iff)

lemma binary_tabulate:
  assumes "\<And>y x. y < r \<Longrightarrow> x < c \<Longrightarrow> f y x = 0 \<or> f y x = 255"
  shows "binary_mask (mat_tabulate r c f)"
  using assms by (auto simp: binary_mask_def mat_tabulate_def list_all_iff)

lemma binary_map:
  assumes "\<And>p. f p = 0 \<or> f p = 255"
  shows "binary_mask (mat_map f m)"
  using assms by (auto simp: binary_mask_def mat_map_def list_all_iff)

lemma binary_map2:
  assumes "binary_mask a" "binary_mask b"
    and "\<And>p q. p = 0 \<or> p = 255 \<Longrightarrow> q = 0 \<or> q = 255 \<Longrightarrow> f p q = 0 \<or> f p q = 255"
  shows "binary_mask (mat_map2 f a b)"
proof (rule binary_maskI)
  fix r p assume r: "r \<in> set (elems (mat_map2 f a b))" and p: "p \<in> set r"
  from r obtain ra rb where rab: "(ra, rb) \<in> set (zip (elems a) (elems b))" and r_eq: "r = map2 f ra rb"
    by (auto simp: mat_map2_def)
  from rab have ra: "ra \<in> set (elems a)" and rb: "rb \<in> set (elems b)"
    by (auto dest: set_zip_leftD set_zip_rightD)
  from p r_eq obtain u v where uv: "(u, v) \<in> set (zip ra rb)" and p_eq: "p = f u v"
    by auto
  from uv have "u \<in> set ra" "v \<in> set rb"
    by (auto dest: set_zip_leftD set_zip_rightD)
  with ra rb assms(1,2) have "u = 0 \<or> u = 255" "v = 0 \<or> v = 255"
    by (auto dest: binary_maskD)
  with assms(3) p_eq show "p = 0 \<or> p = 255" by blast
qed

lemma binary_inRange: "binary_mask (cv_inRange src lo hi)"
  unfolding cv_inRange_def by (rule binary_map) simp

lemma binary_zeros: "binary_mask (cv_zeros r c)"
  unfolding cv_zeros_def by (rule binary_tabulate) simp

lemma binary_Mat_default: "binary_mask Mat_default"
  by (simp add: binary_mask_def Mat_default_def)

lemma binary_or: "binary_mask a \<Longrightarrow> binary_mask b \<Longrightarrow> binary_mask (cv_bitwise_or a b)"
  unfolding cv_bitwise_or_def by (rule binary_map2) auto

lemma binary_and: "binary_mask a \<Longrightarrow> binary_mask b \<Longrightarrow> binary_mask (cv_bitwise_and a b)"
  unfolding cv_bitwise_and_def by (rule binary_map2) auto

lemma not_255: "NOT (255 :: 8 word) = 0" "NOT (0 :: 8 word) = 255"
  by simp_all

lemma fold_max_binary:
  fixes a :: uchar
  assumes "\<And>v. v \<in> set vs \<Longrightarrow> v = 0 \<or> v = 255" "a = 0 \<or> a = 255"
  shows "fold max vs a = (if 255 \<in> set vs \<or> a = 255 then 255 else 0)"
  using assms
proof (induction vs arbitrary: a)
  case Nil
  then show ?case by auto
next
  case (Cons v vs)
  have v: "v = 0 \<or> v = 255" using Cons.prems(1) by simp
  have m: "max v a = (if v = 255 \<or> a = 255 then 255 else 0)"
    using v Cons.prems(2) by (auto simp: max_def)
  have "fold max vs (max v a) = (if 255 \<in> set vs \<or> max v a = 255 then 255 else 0)"
    by (rule Cons.IH) (use Cons.prems(1) m in auto)
  then show ?case using m by auto
qed


lemma binary_not:
  assumes "binary_mask a" shows "binary_mask (cv_bitwise_not a)"
proof (rule binary_maskI)
  fix r p assume "r \<in> set (elems (cv_bitwise_not a))" "p \<in> set r"
  then obtain r' q where "r' \<in> set (elems a)" "q \<in> set r'" "p = NOT q"
    by (auto simp: cv_bitwise_not_def mat_map_def)
  with assms have "q = 0 \<or> q = 255" "p = NOT q" by (auto dest: binary_maskD)
  then show "p = 0 \<or> p = 255" using not_255 by auto
qed

lemma wf_map: "mat_wf m \<Longrightarrow> mat_wf (mat_map f m)"
  by (auto simp: mat_wf_def mat_map_def list_all_iff)

lemma wf_inRange: "mat_wf m \<Longrightarrow> mat_wf (cv_inRange m lo hi)"
  by (simp add: cv_inRange_def wf_map)

lemma wf_tabulate: "mat_wf (mat_tabulate r c f)"
  by (auto simp: mat_wf_def mat_tabulate_def list_all_iff)

lemma wf_map2: "mat_wf a \<Longrightarrow> mat_wf b \<Longrightarrow> same_size a b \<Longrightarrow> mat_wf (mat_map2 f a b)"
  by (auto simp: mat_wf_def mat_map2_def list_all_iff same_size_def elim!: in_set_zipE)

lemma at_map: "mat_wf m \<Longrightarrow> y < rows m \<Longrightarrow> x < cols m \<Longrightarrow> mat_at (mat_map f m) y x = f (mat_at m y x)"
  by (auto simp: mat_wf_def mat_map_def mat_at_def list_all_iff)

lemma at_tabulate: "y < r \<Longrightarrow> x < c \<Longrightarrow> mat_at (mat_tabulate r c f) y x = f y x"
  by (auto simp: mat_tabulate_def mat_at_def)

lemma in_window: "j \<in> set (window n k i) \<Longrightarrow> j < n"
  by (auto simp: window_def)

lemma binary_at: "mat_wf m \<Longrightarrow> binary_mask m \<Longrightarrow> y < rows m \<Longrightarrow> x < cols m \<Longrightarrow> mat_at m y x = 0 \<or> mat_at m y x = 255"
  by (rule binary_maskD[of m "elems m ! y"]) (auto simp: mat_wf_def mat_at_def list_all_iff)

lemma binary_dilate:
  assumes "mat_wf src" "binary_mask src"
  shows "binary_mask (cv_dilate src kw kh)"
  unfolding cv_dilate_def
proof (rule binary_tabulate)
  fix y x
  let ?vs = "concat (map (\<lambda>y'. map (\<lambda>x'. mat_at src y' x') (window (cols src) kw x)) (window (rows src) kh y))"
  have vs: "\<And>v. v \<in> set ?vs \<Longrightarrow> v = 0 \<or> v = 255"
    using binary_at[OF assms] by (auto dest!: in_window)
  have "fold max ?vs 0 = (if 255 \<in> set ?vs \<or> (0::uchar) = 255 then 255 else 0)"
    using vs by (intro fold_max_binary) auto
  then show "fold max ?vs 0 = 0 \<or> fold max ?vs 0 = 255" by (simp split: if_splits)
qed

lemma binary_fill_rows: "binary_mask m \<Longrightarrow> v = 0 \<or> v = 255 \<Longrightarrow> binary_mask (fill_rows_from m s v)"
  by (auto simp: binary_mask_def fill_rows_from_def list_all_iff split: if_splits dest!: set_zip_rightD)

lemma binary_getRegionMask: "binary_mask (getRegionMask m idxs)"
proof -
  have "binary_mask acc \<Longrightarrow> binary_mask (fold (\<lambda>i acc. cv_bitwise_or acc (cv_inRange m i i)) idxs acc)" for acc
    by (induction idxs arbitrary: acc) (auto intro: binary_or binary_inRange)
  then show ?thesis
    by (simp add: getRegionMask_def binary_Mat_default binary_zeros)
qed

lemma size_map [simp]: "rows (mat_map f m) = rows m" "cols (mat_map f m) = cols m"
  by (simp_all add: mat_map_def)

lemma size_map2 [simp]: "rows (mat_map2 f a b) = rows a" "cols (mat_map2 f a b) = cols a"
  by (simp_all add: mat_map2_def)

lemma size_inRange: "rows (cv_inRange m lo hi) = rows m" "cols (cv_inRange m lo hi) = cols m"
  by (simp_all add: cv_inRange_def)

lemma binary_getForeheadMask: "mat_wf m \<Longrightarrow> binary_mask (getForeheadMask m)"
  unfolding getForeheadMask_def Let_def
  by (intro binary_and binary_dilate binary_inRange wf_inRange)

lemma binary_getCheeksMask: "mat_wf m \<Longrightarrow> binary_mask (getCheeksMask m)"
  unfolding getCheeksMask_def Let_def
  apply (intro binary_and binary_not binary_dilate binary_inRange binary_or)
  apply (simp add: cv_bitwise_or_def)
  apply (rule wf_map2)
  apply (simp_all add: wf_inRange same_size_def size_inRange)
  done

lemma binary_getJawMask: "binary_mask (getJawMask m)"
  unfolding getJawMask_def Let_def
  by (intro binary_and binary_inRange binary_fill_rows binary_zeros) simp

lemma tabulate_cong:
  "(\<And>y x. y < r \<Longrightarrow> x < c \<Longrightarrow> f y x = g y x) \<Longrightarrow> mat_tabulate r c f = mat_tabulate r c g"
  by (simp add: mat_tabulate_def)

lemma wf_as_tabulate: "mat_wf m \<Longrightarrow> m = mat_tabulate (rows m) (cols m) (mat_at m)"
proof -
  assume wf: "mat_wf m"
  have "elems m = map (\<lambda>y. map (\<lambda>x. elems m ! y ! x) [0..<cols m]) [0..<rows m]"
  proof (rule nth_equalityI)
    show "length (elems m) = length (map (\<lambda>y. map (\<lambda>x. elems m ! y ! x) [0..<cols m]) [0..<rows m])"
      using wf by (simp add: mat_wf_def)
  next
    fix i assume "i < length (elems m)"
    then have i: "i < rows m" and len: "length (elems m ! i) = cols m"
      using wf by (auto simp: mat_wf_def list_all_iff)
    have "elems m ! i = map (\<lambda>x. elems m ! i ! x) [0..<cols m]"
      using len by (metis map_nth)
    then show "elems m ! i = map (\<lambda>y. map (\<lambda>x. elems m ! y ! x) [0..<cols m]) [0..<rows m] ! i"
      using i by simp
  qed
  then show ?thesis
    by (simp add: mat_tabulate_def mat_at_def) 
qed

lemma map2_same: "map2 f (map g xs) (map h xs) = map (\<lambda>x. f (g x) (h x)) xs"
  by (induction xs) simp_all

lemma map2_tabulate:
  "mat_map2 f (mat_tabulate r c g) (mat_tabulate r c h) = mat_tabulate r c (\<lambda>y x. f (g y x) (h y x))"
  by (simp add: mat_map2_def mat_tabulate_def map2_same)

lemma map_tabulate:
  "mat_map f (mat_tabulate r c g) = mat_tabulate r c (\<lambda>y x. f (g y x))"
  by (simp add: mat_map_def mat_tabulate_def comp_def)


lemma set_window: "set (window n k i) = {j. j < n \<and> i \<le> j + k div 2 \<and> j + k div 2 < i + k}"
  by (auto simp: window_def)

lemma uchar_in_6_7: "(6 \<le> uint (p::uchar) \<and> uint p \<le> 7) \<longleftrightarrow> (p = 6 \<or> p = 7)"
  by (auto simp: word_uint_eq_iff)

lemma uchar_is_1: "(1 \<le> uint (p::uchar) \<and> uint p \<le> 1) \<longleftrightarrow> p = 1"
  by (auto simp: word_uint_eq_iff)

lemma dilate_inRange_pixel:
  assumes wf: "mat_wf m" and y: "y < rows m" and x: "x < cols m"
  shows "mat_at (cv_dilate (cv_inRange m 6 7) 15 15) y x =
         (if \<exists>y' \<in> set [0..<rows m]. \<exists>x' \<in> set [0..<cols m].
               y' \<le> y + 7 \<and> y \<le> y' + 7 \<and> x' \<le> x + 7 \<and> x \<le> x' + 7 \<and>
               (mat_at m y' x' = 6 \<or> mat_at m y' x' = 7)
          then 255 else 0)"
proof -
  let ?src = "cv_inRange m 6 7"
  let ?vs = "concat (map (\<lambda>y'. map (\<lambda>x'. mat_at ?src y' x') (window (cols ?src) 15 x))
                         (window (rows ?src) 15 y))"
  have src_at: "mat_at ?src y' x' = (if mat_at m y' x' = 6 \<or> mat_at m y' x' = 7 then 255 else 0)"
    if "y' < rows m" "x' < cols m" for y' x'
    using that wf by (simp add: cv_inRange_def at_map uchar_in_6_7)
  have bin: "v = 0 \<or> v = 255" if "v \<in> set ?vs" for v
    using that src_at by (auto simp: size_inRange dest!: in_window)
  have "fold max ?vs 0 = (if 255 \<in> set ?vs \<or> (0::uchar) = 255 then 255 else 0)"
    using bin by (intro fold_max_binary) auto
  moreover have "255 \<in> set ?vs \<longleftrightarrow>
      (\<exists>y' \<in> set [0..<rows m]. \<exists>x' \<in> set [0..<cols m].
          y' \<le> y + 7 \<and> y \<le> y' + 7 \<and> x' \<le> x + 7 \<and> x \<le> x' + 7 \<and>
          (mat_at m y' x' = 6 \<or> mat_at m y' x' = 7))" (is "?L \<longleftrightarrow> ?R")
  proof
    assume ?L
    then obtain y' x' where "y' \<in> set (window (rows m) 15 y)" "x' \<in> set (window (cols m) 15 x)"
      "mat_at ?src y' x' = 255"
      by (auto simp: size_inRange)
    then have "y' < rows m" "x' < cols m" "y' \<le> y + 7" "y \<le> y' + 7" "x' \<le> x + 7" "x \<le> x' + 7"
      "mat_at m y' x' = 6 \<or> mat_at m y' x' = 7"
      using src_at[of y' x'] by (auto simp: set_window split: if_splits)
    then show ?R
      by (intro bexI[of _ y'] bexI[of _ x']) auto
  next
    assume ?R
    then obtain y' x' where h: "y' < rows m" "x' < cols m" "y' \<le> y + 7" "y \<le> y' + 7"
      "x' \<le> x + 7" "x \<le> x' + 7" "mat_at m y' x' = 6 \<or> mat_at m y' x' = 7"
      by auto
    then have "y' \<in> set (window (rows m) 15 y)" "x' \<in> set (window (cols m) 15 x)"
      "mat_at ?src y' x' = 255"
      using src_at[of y' x'] by (auto simp: set_window)
    then show ?L
      by (auto simp: size_inRange intro!: bexI[of _ y'] image_eqI[of _ _ x'])
  qed
  ultimately show ?thesis
    using y x by (simp add: cv_dilate_def at_tabulate size_inRange)
qed


lemma wf_dilate: "mat_wf (cv_dilate src kw kh)"
  by (simp add: cv_dilate_def wf_tabulate)

lemma size_dilate: "rows (cv_dilate src kw kh) = rows src" "cols (cv_dilate src kw kh) = cols src"
  by (simp_all add: cv_dilate_def mat_tabulate_def)

lemma getForeheadMask_tabulate:
  assumes wf: "mat_wf m"
  shows "getForeheadMask m =
         mat_tabulate (rows m) (cols m)
           (\<lambda>y x. (if 1 \<le> uint (mat_at m y x) \<and> uint (mat_at m y x) \<le> 1 then 255 else 0)
                   AND mat_at (cv_dilate (cv_inRange m 6 7) 15 15) y x)"
proof -
  have m: "cv_inRange m 1 1 = mat_tabulate (rows m) (cols m)
              (\<lambda>y x. if 1 \<le> uint (mat_at m y x) \<and> uint (mat_at m y x) \<le> 1 then 255 else 0)"
    unfolding cv_inRange_def by (subst wf_as_tabulate[OF wf]) (simp add: mat_map_def mat_tabulate_def comp_def)
  have d: "cv_dilate (cv_inRange m 6 7) 15 15 = mat_tabulate (rows m) (cols m)
              (mat_at (cv_dilate (cv_inRange m 6 7) 15 15))"
    using wf_as_tabulate[OF wf_dilate, of "cv_inRange m 6 7" 15 15]
    by (simp only: size_dilate size_inRange)
  show ?thesis
    unfolding getForeheadMask_def Let_def cv_bitwise_and_def
    by (subst m, subst d) (simp add: map2_tabulate)
qed

lemma and_255: "(if b then 255 else 0) AND (if c then 255 else (0::uchar)) = (if b \<and> c then 255 else 0)"
  by simp

section \<open>Facts about loops and the regional blend\<close>

lemma for_each_fixed:
  "(\<And>i. i \<in> set xs \<Longrightarrow> body i s = Inr s) \<Longrightarrow> for_each xs body s = Inr s"
  by (induction xs) simp_all

lemma for_each_preserves:
  assumes "for_each xs body s = Inr s'" and "P s"
    and "\<And>i t t'. i \<in> set xs \<Longrightarrow> P t \<Longrightarrow> body i t = Inr t' \<Longrightarrow> P t'"
  shows "P s'"
  using assms
proof (induction xs arbitrary: s)
  case Nil
  then show ?case by simp
next
  case (Cons i xs)
  from Cons.prems(1) obtain t where t: "body i s = Inr t" and rest: "for_each xs body t = Inr s'"
    by (auto split: sum.splits)
  have "P t" using Cons.prems(2,3) t by auto
  with rest show ?case using Cons.IH Cons.prems(3) by auto
qed

lemma for_each_establishes:
  assumes "for_each xs body s = Inr s'" and "i \<in> set xs" and "P s"
    and "\<And>j t t'. j \<in> set xs \<Longrightarrow> P t \<Longrightarrow> body j t = Inr t' \<Longrightarrow> P t'"
    and "\<And>t t'. P t \<Longrightarrow> body i t = Inr t' \<Longrightarrow> Q t'"
    and "\<And>j t t'. j \<in> set xs \<Longrightarrow> Q t \<Longrightarrow> body j t = Inr t' \<Longrightarrow> Q t'"
  shows "Q s'"
  using assms
proof (induction xs arbitrary: s)
  case Nil
  then show ?case by simp
next
  case (Cons j xs)
  from Cons.prems(1) obtain t where t: "body j s = Inr t" and rest: "for_each xs body t = Inr s'"
    by (auto split: sum.splits)
  show ?case
  proof (cases "i = j")
    case True
    then have "Q t" using Cons.prems(3,5) t by auto
    then show ?thesis
      using for_each_preserves[OF rest, of Q] Cons.prems(6) by auto
  next
    case False
    then have i: "i \<in> set xs" using Cons.prems(2) by simp
    have "P t" using Cons.prems(3,4) t by auto
    show ?thesis
    proof (rule Cons.IH[OF rest i \<open>P t\<close>])
      show "\<And>k t t'. k \<in> set xs \<Longrightarrow> P t \<Longrightarrow> body k t = Inr t' \<Longrightarrow> P t'"
        by (rule Cons.prems(4)) simp_all
      show "\<And>t t'. P t \<Longrightarrow> body i t = Inr t' \<Longrightarrow> Q t'"
        by (rule Cons.prems(5))
      show "\<And>k t t'. k \<in> set xs \<Longrightarrow> Q t \<Longrightarrow> body k t = Inr t' \<Longrightarrow> Q t'"
        by (rule Cons.prems(6)) simp_all
    qed
  qed
qed

lemma for_each_total:
  assumes "I s" and "\<And>i t. i \<in> set xs \<Longrightarrow> I t \<Longrightarrow> \<exists>t'. body i t = Inr t' \<and> I t'"
  shows "\<exists>s'. for_each xs body s = Inr s' \<and> I s'"
  using assms
proof (induction xs arbitrary: s)
  case Nil
  then show ?case by simp
next
  case (Cons i xs)
  from Cons.prems obtain t where t: "body i s = Inr t" "I t"
    by (meson list.set_intros(1))
  from Cons.IH[OF t(2)] Cons.prems(2) obtain s' where "for_each xs body t = Inr s'" "I s'"
    by (meson list.set_intros(2))
  with t show ?case by auto
qed


lemma uchar_to_rat_uint: "uchar_to_rat p = of_int (uint p)"
  by (simp add: uchar_to_rat_def)

lemma uint_uchar_range: "0 \<le> uint (p::uchar)" "uint (p::uchar) \<le> 255"
  using uint_lt2p[of p] by simp_all

lemma static_cast_uchar_id: "static_cast_uchar (uchar_to_rat p) = Some p"
proof -
  have t: "truncate_rat (of_int (uint p)) = uint p"
    unfolding truncate_rat_def by (simp only: floor_of_int ceiling_of_int if_cancel)
  show ?thesis
    unfolding static_cast_uchar_def uchar_to_rat_uint t Let_def
    using uint_uchar_range[of p] by simp
qed

lemma blend_sample_zero: "blend_sample 0 orig aged = Some orig"
  by (simp add: blend_sample_def static_cast_uchar_id)

lemma blend_vec_zero: "blend_vec 0 orig aged = Some orig"
  by (cases orig; cases aged) (simp add: blend_sample_zero)

lemma weighted_sample_identity: "weighted_sample 1 0 0 a b = a"
proof -
  have e: "uchar_to_rat a * 1 + uchar_to_rat b * 0 + 0 = of_int (uint a)"
    by (simp add: uchar_to_rat_uint)
  have r: "cvRound (of_int (uint a)) = uint a"
    unfolding cvRound_def Let_def by (simp only: floor_of_int) simp
  show ?thesis
    unfolding weighted_sample_def e r saturate_cast_uchar_def
    using uint_uchar_range[of a] by simp
qed

lemma weighted_pixel_identity: "weighted_pixel 1 0 0 a b = a"
  by (cases a; cases b) (simp add: weighted_sample_identity)

lemma map2_left:
  "length xs = length ys \<Longrightarrow> (\<And>a b. (a, b) \<in> set (zip xs ys) \<Longrightarrow> f a b = a) \<Longrightarrow>
     map2 f xs ys = xs"
  by (induction xs ys rule: list_induct2) simp_all

lemma mat_map2_left:
  assumes "mat_wf a" "mat_wf b" "same_size a b" and f: "\<And>p q. f p q = p"
  shows "mat_map2 f a b = a"
proof -
  have len: "length (elems a) = length (elems b)"
    using assms(1-3) by (simp add: mat_wf_def same_size_def)
  have "map2 (\<lambda>ra rb. map2 f ra rb) (elems a) (elems b) = elems a"
  proof (rule map2_left[OF len])
    fix ra rb assume "(ra, rb) \<in> set (zip (elems a) (elems b))"
    then have "ra \<in> set (elems a)" "rb \<in> set (elems b)"
      by (auto dest: set_zip_leftD set_zip_rightD)
    then have "length ra = length rb"
      using assms(1-3) by (simp add: mat_wf_def same_size_def list_all_iff)
    then show "map2 f ra rb = ra"
      by (rule map2_left) (simp add: f)
  qed
  then show ?thesis
    by (simp add: mat_map2_def)
qed

lemma addWeighted_identity:
  assumes "mat_wf original" "mat_wf transformed" "same_size original transformed"
  shows "cv_addWeighted original 1 transformed (1 - 1) 0 = Inr original"
  using assms by (simp add: cv_addWeighted_def mat_map2_left weighted_pixel_identity)

lemma mat_set_same: "mat_set m y x (mat_at m y x) = m"
  by (simp add: mat_set_def mat_at_def)

lemma size_convertTo_norm:
  "rows (convertTo_norm m) = rows m" "cols (convertTo_norm m) = cols m"
  by (simp_all add: convertTo_norm_def mat_map_def)

lemma blend_at_identity:
  assumes "in_bounds mask_norm y x" "in_bounds original y x"
  shows "blend_at original mask_norm 0 y x original = Inr original"
  using assms by (simp add: blend_at_def blend_vec_zero mat_set_same)

lemma blendRegion_identity:
  assumes "empty_mat m \<or> same_size original m"
  shows "blendRegion original original m 0 = Inr original"
proof (cases "empty_mat m")
  case True
  then show ?thesis by (simp add: blendRegion_def)
next
  case False
  with assms have sz: "rows m = rows original" "cols m = cols original"
    by (simp_all add: same_size_def)
  have row: "for_each [0..<cols original] (blend_at original (convertTo_norm m) 0 y) original = Inr original"
    if "y < rows original" for y
    by (rule for_each_fixed) (use that sz in \<open>simp add: blend_at_identity in_bounds_def size_convertTo_norm\<close>)
  have "for_each [0..<rows original]
          (\<lambda>y. for_each [0..<cols original] (blend_at original (convertTo_norm m) 0 y)) original
        = Inr original"
    by (rule for_each_fixed) (simp add: row)
  with False show ?thesis by (simp add: blendRegion_def)
qed

lemma try_catch_no_exception: "try_catch body (\<lambda>msg. Inr v) \<noteq> Inl (Exception msg')"
proof (cases body)
  case (Inl e)
  then show ?thesis by (cases e) simp_all
next
  case (Inr r)
  then show ?thesis by simp
qed


lemma shaped_mat_set:
  assumes "shaped r c m" shows "shaped r c (mat_set m y x v)"
proof (cases "y < length (elems m)")
  case True
  then have "length (elems m ! y) = c"
    using assms by (auto simp: shaped_def mat_wf_def list_all_iff)
  then have "length q = c" if "q \<in> set ((elems m)[y := (elems m ! y)[x := v]])" for q
    using that assms set_update_subset_insert[of "elems m" y "(elems m ! y)[x := v]"]
    by (auto simp: shaped_def mat_wf_def list_all_iff)
  then show ?thesis
    using assms by (auto simp: shaped_def mat_wf_def mat_set_def list_all_iff)
next
  case False
  then have "(elems m)[y := (elems m ! y)[x := v]] = elems m"
    by (intro list_update_beyond) simp
  then show ?thesis
    using assms by (auto simp: shaped_def mat_wf_def mat_set_def)
qed

lemma at_mat_set:
  assumes "shaped r c m" "y' < r" "x' < c"
  shows "mat_at (mat_set m y x v) y' x' = (if y' = y \<and> x' = x then v else mat_at m y' x')"
proof -
  have len: "length (elems m) = r" "length (elems m ! y') = c"
    using assms by (auto simp: shaped_def mat_wf_def list_all_iff)
  show ?thesis
  proof (cases "y' = y")
    case True
    then show ?thesis
      using len assms(2,3) by (simp add: mat_set_def mat_at_def nth_list_update)
  next
    case False
    then show ?thesis
      by (simp add: mat_set_def mat_at_def)
  qed
qed

lemma blend_at_cases:
  assumes "blend_at original mn s y x t = Inr t'"
  shows "t' = t \<or> (1 / 2 < mat_at mn y x \<and>
                   (\<exists>v. blend_vec s (mat_at original y x) (mat_at t y x) = Some v \<and>
                        t' = mat_set t y x v))"
  using assms by (auto simp: blend_at_def split: if_splits option.splits)

lemma blend_at_shaped:
  "shaped r c t \<Longrightarrow> blend_at original mn s y x t = Inr t' \<Longrightarrow> shaped r c t'"
  by (auto dest!: blend_at_cases simp: shaped_mat_set)

lemma blend_at_unselected:
  assumes "shaped r c t" "y < r" "x < c" "\<not> 1 / 2 < mat_at mn y x"
    and "blend_at original mn s y' x' t = Inr t'"
  shows "mat_at t' y x = mat_at t y x"
  using blend_at_cases[OF assms(5)] assms(1-4) by (auto simp: at_mat_set)

lemma blend_at_zero_sets:
  assumes "shaped r c t" "y < r" "x < c" "1 / 2 < mat_at mn y x"
    and "blend_at original mn 0 y x t = Inr t'"
  shows "mat_at t' y x = mat_at original y x"
  using assms by (auto simp: blend_at_def blend_vec_zero at_mat_set split: if_splits)

lemma blend_at_zero_keeps:
  assumes "shaped r c t" "y < r" "x < c" "mat_at t y x = mat_at original y x"
    and "blend_at original mn 0 y' x' t = Inr t'"
  shows "mat_at t' y x = mat_at original y x"
  using blend_at_cases[OF assms(5)] assms(1-4) by (auto simp: at_mat_set blend_vec_zero)

lemma blend_row_shaped:
  assumes "shaped r c t" and "for_each xs (blend_at original mn s y) t = Inr t'"
  shows "shaped r c t'"
  using assms(2,1)
proof (rule for_each_preserves[where P = "shaped r c"])
  show "shaped r c u'" if "i \<in> set xs" "shaped r c u" "blend_at original mn s y i u = Inr u'"
    for i u u'
    using that(2,3) by (rule blend_at_shaped)
qed

lemma blend_loops_unselected:
  assumes run: "for_each ys (\<lambda>y'. for_each xs (blend_at original mn s y')) aged = Inr res"
    and sh: "shaped r c aged" and yx: "y < r" "x < c" and un: "\<not> 1 / 2 < mat_at mn y x"
  shows "shaped r c res \<and> mat_at res y x = mat_at aged y x"
proof -
  let ?P = "\<lambda>t. shaped r c t \<and> mat_at t y x = mat_at aged y x"
  have step: "?P t'" if "?P t" "blend_at original mn s y' x' t = Inr t'" for t t' y' x'
  proof -
    from that(1) have t: "shaped r c t" and p: "mat_at t y x = mat_at aged y x" by simp_all
    from blend_at_shaped[OF t that(2)] blend_at_unselected[OF t yx un that(2)] p
    show ?thesis by simp
  qed
  have row: "?P t'" if "?P t" "for_each xs (blend_at original mn s y') t = Inr t'" for t t' y'
    using that(2,1)
  proof (rule for_each_preserves[where P = ?P])
    show "?P u'" if "i \<in> set xs" "?P u" "blend_at original mn s y' i u = Inr u'" for i u u'
      using that(2,3) by (rule step)
  qed
  have start: "?P aged"
    using sh by simp
  show ?thesis
    using run start
  proof (rule for_each_preserves[where P = ?P])
    show "?P u'" if "i \<in> set ys" "?P u" "for_each xs (blend_at original mn s i) u = Inr u'"
      for i u u'
      using that(2,3) by (rule row)
  qed
qed

lemma blend_loops_zero_selected:
  assumes run: "for_each ys (\<lambda>y'. for_each xs (blend_at original mn 0 y')) aged = Inr res"
    and sh: "shaped r c aged" and yx: "y < r" "x < c" and mem: "y \<in> set ys" "x \<in> set xs"
    and sel: "1 / 2 < mat_at mn y x"
  shows "shaped r c res \<and> mat_at res y x = mat_at original y x"
proof -
  let ?P = "shaped r c :: ImageData \<Rightarrow> bool"
  let ?Q = "\<lambda>t. shaped r c t \<and> mat_at t y x = mat_at original y x"
  have keep: "?Q t'" if "?Q t" "blend_at original mn 0 y' x' t = Inr t'" for t t' y' x'
  proof -
    from that(1) have t: "shaped r c t" and p: "mat_at t y x = mat_at original y x" by simp_all
    from blend_at_shaped[OF t that(2)] blend_at_zero_keeps[OF t yx p that(2)]
    show ?thesis by simp
  qed
  have keep_row: "?Q t'" if "?Q t" "for_each xs (blend_at original mn 0 y') t = Inr t'" for t t' y'
    using that(2,1)
  proof (rule for_each_preserves[where P = ?Q])
    show "?Q u'" if "i \<in> set xs" "?Q u" "blend_at original mn 0 y' i u = Inr u'" for i u u'
      using that(2,3) by (rule keep)
  qed
  have set_row: "?Q t'" if "?P t" "for_each xs (blend_at original mn 0 y) t = Inr t'" for t t'
    using that(2) mem(2) that(1)
  proof (rule for_each_establishes[where P = ?P and Q = ?Q])
    show "\<And>j u u'. j \<in> set xs \<Longrightarrow> shaped r c u \<Longrightarrow> blend_at original mn 0 y j u = Inr u' \<Longrightarrow> shaped r c u'"
      by (rule blend_at_shaped)
    show "?Q u'" if "shaped r c u" "blend_at original mn 0 y x u = Inr u'" for u u'
      using blend_at_shaped[OF that] blend_at_zero_sets[OF that(1) yx sel that(2)] by simp
    show "?Q u'" if "j \<in> set xs" "?Q u" "blend_at original mn 0 y j u = Inr u'" for j u u'
      using that(2,3) by (rule keep)
  qed
  show ?thesis
    using run mem(1) sh
  proof (rule for_each_establishes[where P = ?P and Q = ?Q])
    show "\<And>j u u'. j \<in> set ys \<Longrightarrow> shaped r c u \<Longrightarrow>
            for_each xs (blend_at original mn 0 j) u = Inr u' \<Longrightarrow> shaped r c u'"
      by (rule blend_row_shaped)
    show "\<And>u u'. shaped r c u \<Longrightarrow> for_each xs (blend_at original mn 0 y) u = Inr u' \<Longrightarrow> ?Q u'"
      by (rule set_row)
    show "?Q u'" if "j \<in> set ys" "?Q u" "for_each xs (blend_at original mn 0 j) u = Inr u'"
      for j u u'
      using that(2,3) by (rule keep_row)
  qed
qed

lemma blend_loops_zero_total:
  assumes sh: "shaped r c aged" and ys: "\<And>y. y \<in> set ys \<Longrightarrow> y < r" and xs: "\<And>x. x \<in> set xs \<Longrightarrow> x < c"
    and mn: "r \<le> rows mn" "c \<le> cols mn" and orig: "r \<le> rows original" "c \<le> cols original"
  shows "\<exists>res. for_each ys (\<lambda>y'. for_each xs (blend_at original mn 0 y')) aged = Inr res \<and>
               shaped r c res"
proof (rule for_each_total[where I = "shaped r c"])
  show "shaped r c aged" by (rule sh)
next
  fix y t assume y: "y \<in> set ys" and t: "shaped r c (t :: ImageData)"
  show "\<exists>t'. for_each xs (blend_at original mn 0 y) t = Inr t' \<and> shaped r c t'"
  proof (rule for_each_total[where I = "shaped r c"])
    show "shaped r c t" by (rule t)
  next
    fix x u assume x: "x \<in> set xs" and u: "shaped r c (u :: ImageData)"
    have "in_bounds mn y x" "in_bounds original y x"
      using ys[OF y] xs[OF x] mn orig by (auto simp: in_bounds_def)
    then have "\<exists>u'. blend_at original mn 0 y x u = Inr u'"
      by (simp add: blend_at_def blend_vec_zero)
    then obtain u' where u': "blend_at original mn 0 y x u = Inr u'" ..
    from blend_at_shaped[OF u u'] u'
    show "\<exists>u'. blend_at original mn 0 y x u = Inr u' \<and> shaped r c u'"
      by simp
  qed
qed

lemma shaped_self: "mat_wf m \<Longrightarrow> shaped (rows m) (cols m) m"
  by (simp add: shaped_def)

lemma at_convertTo_norm:
  "mat_wf m \<Longrightarrow> y < rows m \<Longrightarrow> x < cols m \<Longrightarrow>
     mat_at (convertTo_norm m) y x = uchar_to_rat (mat_at m y x) / 255"
  by (simp add: convertTo_norm_def at_map)

lemma blendRegion_unselected:
  assumes run: "blendRegion original aged m s = Inr res" and wf: "mat_wf aged"
    and yx: "y < rows aged" "x < cols aged"
    and un: "empty_mat m \<or> \<not> 1 / 2 < mat_at (convertTo_norm m) y x"
  shows "mat_wf res \<and> same_size res aged \<and> mat_at res y x = mat_at aged y x"
proof (cases "empty_mat m")
  case True
  with run wf show ?thesis by (simp add: blendRegion_def same_size_def)
next
  case False
  with run have loops: "for_each [0..<rows aged]
      (\<lambda>y'. for_each [0..<cols aged] (blend_at original (convertTo_norm m) s y')) aged = Inr res"
    by (simp add: blendRegion_def)
  from False un have un': "\<not> 1 / 2 < mat_at (convertTo_norm m) y x" by simp
  from blend_loops_unselected[OF loops shaped_self[OF wf] yx un']
  show ?thesis by (simp add: shaped_def same_size_def)
qed

lemma blendRegion_zero:
  assumes wf: "mat_wf aged" and sz: "same_size original aged"
    and wfm: "mat_wf m" and szm: "same_size original m"
  shows "\<exists>res. blendRegion original aged m 0 = Inr res \<and> mat_wf res \<and> same_size res aged \<and>
           (\<forall>y<rows aged. \<forall>x<cols aged.
              mat_at res y x = (if 1 / 2 < uchar_to_rat (mat_at m y x) / 255
                                then mat_at original y x else mat_at aged y x))"
proof (cases "empty_mat m")
  case True
  then have "rows aged = 0 \<or> cols aged = 0"
    using sz szm by (auto simp: empty_mat_def same_size_def)
  with True wf show ?thesis
    by (auto simp: blendRegion_def same_size_def)
next
  case False
  let ?mn = "convertTo_norm m"
  have dims: "rows m = rows aged" "cols m = cols aged" "rows original = rows aged"
    "cols original = cols aged"
    using sz szm by (simp_all add: same_size_def)
  have "\<exists>res. for_each [0..<rows aged] (\<lambda>y'. for_each [0..<cols aged] (blend_at original ?mn 0 y')) aged
              = Inr res \<and> shaped (rows aged) (cols aged) res"
    by (rule blend_loops_zero_total[OF shaped_self[OF wf]])
       (simp_all add: size_convertTo_norm dims)
  then obtain res where
    run: "for_each [0..<rows aged] (\<lambda>y'. for_each [0..<cols aged] (blend_at original ?mn 0 y')) aged
            = Inr res"
    and sh: "shaped (rows aged) (cols aged) res"
    by blast
  have px: "mat_at res y x = (if 1 / 2 < uchar_to_rat (mat_at m y x) / 255
                             then mat_at original y x else mat_at aged y x)"
    if yx: "y < rows aged" "x < cols aged" for y x
  proof (cases "1 / 2 < mat_at ?mn y x")
    case True
    from blend_loops_zero_selected[OF run shaped_self[OF wf] yx _ _ True] yx True
    show ?thesis by (simp add: at_convertTo_norm[OF wfm] dims)
  next
    case un: False
    from blend_loops_unselected[OF run shaped_self[OF wf] yx un] yx un
    show ?thesis by (simp add: at_convertTo_norm[OF wfm] dims)
  qed
  from False run sh px show ?thesis
    by (auto simp: blendRegion_def shaped_def same_size_def)
qed

section \<open>The orchestrator's results\<close>

lemma compositeFace_example:
  "compositeFace paste_first_pixel black_frame white_crop example_face = composited_frame"
  by code_simp

lemma example_face_crop:
  "aligned_crop example_face = white_crop" "empty_mat white_crop = False"
  by (simp_all add: example_face_def white_crop_def empty_mat_def)

lemma ready_engine_simps:
  "initialized ready_engine"
  "fd_model_loaded (face_detector ready_engine) = False"
  "fp_model_loaded (face_parser ready_engine) = False"
  "ff_model_loaded (feedforward_generator ready_engine) = False"
  "compositor ready_engine = compositor new_engine"
  by (simp_all add: ready_engine_def initialize_def)

lemma passthrough_example_run:
  "processFrame ready_engine 5 example_context = Inr passthrough_result"
  by (simp add: processFrame_def frame_faces_def ready_engine_simps example_context_def
      detectFaces_def passthrough_result_def clone_def)

lemma faces_example_run:
  "processFrame ready_engine 5 faces_context = Inr faces_result"
  by (simp add: processFrame_def frame_faces_def faces_context_def example_context_def
      ready_engine_simps new_engine_def process_face_def generateAgedFace_def clone_def
      example_face_crop compositeFace_example faces_result_def)

text \<open>
  C1. Called before initialisation has completed, \<open>processFrame\<close> returns a result with
  \<open>success = false\<close>, a non-empty error message and an empty output frame, whatever the
  frame context holds. This holds for the engine of engine.cpp and for the minimal build.
\<close>

theorem processFrame_not_initialized:
  "(\<not> initialized eng \<longrightarrow>
      (\<exists>r. processFrame eng elapsed_ms ctx = Inr r \<and> \<not> success r \<and> error_message r \<noteq> [] \<and>
           empty_mat (output_frame r))) \<and>
   (\<not> me_initialized meng \<longrightarrow>
      \<not> m_success (min_processFrame meng mctx) \<and>
      m_error_message (min_processFrame meng mctx) \<noteq> [] \<and>
      m_empty (m_output_frame (min_processFrame meng mctx)))"
  by (simp add: processFrame_def min_processFrame_def ProcessingResult_default_def
      MinProcessingResult_default_def empty_mat_def Mat_default_def m_empty_def
      MinImageData_default_def)

theorem processFrame_not_initialized_witness:
  "\<not> initialized new_engine \<and>
   processFrame new_engine 5 faces_context =
     Inr (ProcessingResult_default
            \<lparr>success := False, error_message := ''Engine not initialized''\<rparr>) \<and>
   \<not> me_initialized min_engine_new \<and>
   m_error_message (min_processFrame min_engine_new min_context) = ''Engine not initialized''"
  using processFrame_not_initialized [of new_engine 5 faces_context min_engine_new min_context]
  by (simp add: new_engine_def processFrame_def min_processFrame_def min_engine_new_def
      MinProcessingResult_default_def)

text \<open>
  C2. On an initialised engine, when the context supplies no faces and the detector finds
  none, \<open>processFrame\<close> succeeds and its output frame is the input frame (a clone of it).
\<close>

theorem processFrame_passthrough:
  assumes "initialized eng" and "detected_faces ctx = []"
    and "detectFaces (face_detector eng) (input_frame ctx) = []"
  shows "\<exists>r. processFrame eng elapsed_ms ctx = Inr r \<and> success r \<and>
             output_frame r = input_frame ctx"
  using assms by (simp add: processFrame_def frame_faces_def clone_def)

theorem processFrame_passthrough_witness:
  "initialized ready_engine \<and> detected_faces example_context = [] \<and>
   detectFaces (face_detector ready_engine) (input_frame example_context) = [] \<and>
   (\<exists>r. processFrame ready_engine 5 example_context = Inr r \<and> success r \<and>
        output_frame r = black_frame)"
  using processFrame_passthrough [of ready_engine example_context 5]
  by (simp add: ready_engine_simps example_context_def detectFaces_def)

text \<open>
  C3, as stated: every successful \<open>processFrame\<close> call returns metrics with the keys
  \<open>processing_time_ms\<close> and \<open>faces_processed\<close>. It fails: the pass-through of engine.cpp
  succeeds with no metrics at all, and the minimal build succeeds with the keys
  \<open>processing_time_ms\<close>, \<open>face_count\<close> and \<open>confidence\<close>.
\<close>

theorem metrics_counterexample:
  "processFrame ready_engine 5 example_context = Inr passthrough_result \<and>
   success passthrough_result \<and>
   metrics passthrough_result ''processing_time_ms'' = None \<and>
   metrics passthrough_result ''faces_processed'' = None \<and>
   m_success (min_processFrame min_engine_ready min_context) \<and>
   m_metrics (min_processFrame min_engine_ready min_context) ''faces_processed'' = None"
  by (simp add: passthrough_example_run passthrough_result_def
      ProcessingResult_default_def min_processFrame_def min_engine_ready_def min_context_def
      m_empty_def MinProcessingResult_default_def)

text \<open>
  C3, amended: a successful \<open>processFrame\<close> call of engine.cpp that processed at least one
  face returns metrics with \<open>processing_time_ms\<close> (the elapsed milliseconds) and
  \<open>faces_processed\<close> (the number of faces); a successful call of the minimal build returns
  the keys \<open>processing_time_ms\<close>, \<open>face_count\<close> and \<open>confidence\<close>, and not \<open>faces_processed\<close>.
\<close>

theorem metrics_when_faces_processed:
  "(initialized eng \<and> frame_faces eng ctx \<noteq> [] \<and> processFrame eng elapsed_ms ctx = Inr r \<and>
    success r \<longrightarrow>
      metrics r ''processing_time_ms'' = Some (of_int elapsed_ms) \<and>
      metrics r ''faces_processed'' = Some (of_nat (length (frame_faces eng ctx)))) \<and>
   (m_success (min_processFrame meng mctx) \<longrightarrow>
      m_metrics (min_processFrame meng mctx) ''processing_time_ms'' = Some 50 \<and>
      m_metrics (min_processFrame meng mctx) ''face_count'' = Some 1 \<and>
      m_metrics (min_processFrame meng mctx) ''confidence'' = Some (9 / 10) \<and>
      m_metrics (min_processFrame meng mctx) ''faces_processed'' = None)"
proof -
  have full: "metrics r ''processing_time_ms'' = Some (of_int elapsed_ms) \<and>
      metrics r ''faces_processed'' = Some (of_nat (length (frame_faces eng ctx)))"
    if "initialized eng" "frame_faces eng ctx \<noteq> []" "processFrame eng elapsed_ms ctx = Inr r"
       "success r"
  proof (cases "for_each (frame_faces eng ctx) (process_face eng ctx) (clone (input_frame ctx))")
    case (Inl e)
    then show ?thesis using that
      by (cases e) (auto simp: processFrame_def Let_def ProcessingResult_default_def)
  next
    case (Inr out)
    then show ?thesis using that
      by (auto simp: processFrame_def Let_def ProcessingResult_default_def)
  qed
  have minimal: "m_metrics (min_processFrame meng mctx) ''processing_time_ms'' = Some 50 \<and>
      m_metrics (min_processFrame meng mctx) ''face_count'' = Some 1 \<and>
      m_metrics (min_processFrame meng mctx) ''confidence'' = Some (9 / 10) \<and>
      m_metrics (min_processFrame meng mctx) ''faces_processed'' = None"
    if "m_success (min_processFrame meng mctx)"
    using that
    by (auto simp: min_processFrame_def Let_def MinProcessingResult_default_def split: if_splits)
  from full minimal show ?thesis by blast
qed

theorem metrics_when_faces_processed_witness:
  "initialized ready_engine \<and>
   frame_faces ready_engine faces_context \<noteq> [] \<and>
   processFrame ready_engine 5 faces_context = Inr faces_result \<and>
   success faces_result \<and>
   metrics faces_result ''processing_time_ms'' = Some 5 \<and>
   metrics faces_result ''faces_processed'' = Some 1 \<and>
   m_success (min_processFrame min_engine_ready min_context) \<and>
   m_metrics (min_processFrame min_engine_ready min_context) ''face_count'' = Some 1"
  using metrics_when_faces_processed
    [of ready_engine faces_context 5 faces_result min_engine_ready min_context]
    faces_example_run
  by (simp add: ready_engine_simps frame_faces_def faces_context_def
      faces_result_def ProcessingResult_default_def min_processFrame_def min_engine_ready_def
      min_context_def m_empty_def MinProcessingResult_default_def)

section \<open>The region masks\<close>

text \<open>
  C4. For every region label map, each of the eight region-mask operations returns a
  mask whose every pixel is 0 or 255.
\<close>

theorem region_masks_binary:
  assumes "mat_wf full_mask"
  shows "binary_mask (getEyesMask full_mask) \<and> binary_mask (getEyebrowsMask full_mask) \<and>
         binary_mask (getMouthMask full_mask) \<and> binary_mask (getHairMask full_mask) \<and>
         binary_mask (getNeckMask full_mask) \<and> binary_mask (getForeheadMask full_mask) \<and>
         binary_mask (getCheeksMask full_mask) \<and> binary_mask (getJawMask full_mask)"
  using assms
  by (simp add: getEyesMask_def getEyebrowsMask_def getMouthMask_def getHairMask_def
      getNeckMask_def binary_getRegionMask binary_getForeheadMask binary_getCheeksMask
      binary_getJawMask)

theorem region_masks_binary_witness:
  "mat_wf label_map_example \<and>
   getEyesMask label_map_example = \<lparr>rows = 2, cols = 3, elems = [[0, 0, 255], [0, 0, 0]]\<rparr> \<and>
   getJawMask label_map_example = \<lparr>rows = 2, cols = 3, elems = [[0, 0, 0], [255, 0, 0]]\<rparr> \<and>
   getCheeksMask label_map_example = \<lparr>rows = 2, cols = 3, elems = [[0, 0, 0], [0, 0, 0]]\<rparr> \<and>
   binary_mask (getEyesMask label_map_example) \<and> binary_mask (getJawMask label_map_example) \<and>
   binary_mask (getCheeksMask label_map_example)"
proof -
  have wf: "mat_wf label_map_example"
    by code_simp
  have eyes: "getEyesMask label_map_example = \<lparr>rows = 2, cols = 3, elems = [[0, 0, 255], [0, 0, 0]]\<rparr>"
    by code_simp
  have jaw: "getJawMask label_map_example = \<lparr>rows = 2, cols = 3, elems = [[0, 0, 0], [255, 0, 0]]\<rparr>"
    by code_simp
  have cheeks: "getCheeksMask label_map_example = \<lparr>rows = 2, cols = 3, elems = [[0, 0, 0], [0, 0, 0]]\<rparr>"
    by code_simp
  from region_masks_binary [OF wf] wf eyes jaw cheeks show ?thesis
    by simp
qed

text \<open>
  C5. For every region label map, \<open>getForeheadMask\<close> is the pixelwise intersection of the
  skin selection (label 1) with the 15 by 15 rectangular dilation of the eyebrow selection
  (labels 6 and 7); on a map with no pixel labelled 6 or 7 the mask is all zero.
\<close>

theorem getForeheadMask_refines_spec:
  assumes wf: "mat_wf m"
  shows "getForeheadMask m = forehead_spec m \<and>
         (no_eyebrows m \<longrightarrow> getForeheadMask m = cv_zeros (rows m) (cols m))"
proof -
  have eq: "getForeheadMask m = forehead_spec m"
    unfolding getForeheadMask_tabulate[OF wf] forehead_spec_def
    by (rule tabulate_cong)
       (simp only: dilate_inRange_pixel[OF wf] forehead_spec_pixel_def uchar_is_1 and_255)
  have "forehead_spec m = cv_zeros (rows m) (cols m)" if none: "no_eyebrows m"
    unfolding forehead_spec_def cv_zeros_def
  proof (rule tabulate_cong)
    fix y x assume "y < rows m" "x < cols m"
    have "mat_at m y' x' \<noteq> 6 \<and> mat_at m y' x' \<noteq> 7" if "y' < rows m" "x' < cols m" for y' x'
    proof -
      have "elems m ! y' \<in> set (elems m)" "mat_at m y' x' \<in> set (elems m ! y')"
        using that wf by (auto simp: mat_wf_def mat_at_def list_all_iff)
      then show ?thesis using none by (auto simp: no_eyebrows_def list_all_iff)
    qed
    then show "forehead_spec_pixel m y x = 0"
      by (auto simp: forehead_spec_pixel_def)
  qed
  with eq show ?thesis by simp
qed

theorem getForeheadMask_refines_spec_witness:
  "mat_wf label_map_example \<and>
   getForeheadMask label_map_example = \<lparr>rows = 2, cols = 3, elems = [[0, 255, 0], [255, 0, 0]]\<rparr> \<and>
   forehead_spec label_map_example = \<lparr>rows = 2, cols = 3, elems = [[0, 255, 0], [255, 0, 0]]\<rparr> \<and>
   mat_wf skin_only_example \<and> no_eyebrows skin_only_example \<and>
   getForeheadMask skin_only_example = \<lparr>rows = 1, cols = 2, elems = [[0, 0]]\<rparr>"
proof -
  have wf: "mat_wf label_map_example" and wf': "mat_wf skin_only_example"
    by code_simp+
  have none: "no_eyebrows skin_only_example"
    by code_simp
  have spec: "forehead_spec label_map_example = \<lparr>rows = 2, cols = 3, elems = [[0, 255, 0], [255, 0, 0]]\<rparr>"
    by code_simp
  have zeros: "cv_zeros (rows skin_only_example) (cols skin_only_example) = \<lparr>rows = 1, cols = 2, elems = [[0, 0]]\<rparr>"
    by code_simp
  have a: "getForeheadMask label_map_example = forehead_spec label_map_example"
    using getForeheadMask_refines_spec [OF wf] by blast
  have b: "getForeheadMask skin_only_example =
           cv_zeros (rows skin_only_example) (cols skin_only_example)"
    using getForeheadMask_refines_spec [OF wf'] none by blast
  show ?thesis
    unfolding a b spec zeros using wf wf' none by simp
qed

section \<open>The feedforward generator and the regional blend\<close>

text \<open>
  C8. Whenever the generator cannot produce a same-size transformed crop (no model loaded,
  an empty input crop, an exception anywhere in the network stage, or a network result whose
  size differs from the crop's, on which \<open>addWeighted\<close> raises), \<open>generateAgedFace\<close>
  returns the original crop; and on no input at all does an exception leave it.
\<close>

theorem generateAgedFace_soft_fail:
  "(\<not> ff_model_loaded gen \<or> empty_mat face_crop \<or>
    (\<exists>msg. ff_net gen face_crop ctl = Inl msg) \<or>
    (\<exists>result_uint8. ff_net gen face_crop ctl = Inr result_uint8 \<and>
                     \<not> same_size face_crop result_uint8)
      \<longrightarrow> generateAgedFace gen face_crop ctl parsing_mask = Inr face_crop) \<and>
   generateAgedFace gen face_crop ctl parsing_mask \<noteq> Inl (Exception msg')"
proof -
  have "generateAgedFace gen face_crop ctl parsing_mask \<noteq> Inl (Exception msg')"
    by (simp add: generateAgedFace_def try_catch_no_exception)
  moreover have "generateAgedFace gen face_crop ctl parsing_mask = Inr face_crop"
    if "\<not> ff_model_loaded gen \<or> empty_mat face_crop"
    using that by (auto simp: generateAgedFace_def clone_def)
  moreover have "generateAgedFace gen face_crop ctl parsing_mask = Inr face_crop"
    if "ff_net gen face_crop ctl = Inl msg" for msg
    using that by (simp add: generateAgedFace_def clone_def)
  moreover have "generateAgedFace gen face_crop ctl parsing_mask = Inr face_crop"
    if "ff_net gen face_crop ctl = Inr r" "\<not> same_size face_crop r" for r
    using that by (simp add: generateAgedFace_def clone_def cv_addWeighted_def)
  ultimately show ?thesis by blast
qed

theorem generateAgedFace_soft_fail_witness:
  "ff_model_loaded wide_generator \<and>
   ff_net wide_generator white_crop example_controls = Inr black_frame \<and>
   \<not> same_size white_crop black_frame \<and>
   generateAgedFace wide_generator white_crop example_controls skin_label_mask = Inr white_crop \<and>
   \<not> ff_model_loaded (feedforward_generator new_engine) \<and>
   generateAgedFace (feedforward_generator new_engine) white_crop example_controls
     skin_label_mask = Inr white_crop"
  using generateAgedFace_soft_fail
      [of wide_generator white_crop example_controls skin_label_mask]
    generateAgedFace_soft_fail
      [of "feedforward_generator new_engine" white_crop example_controls skin_label_mask]
  by (simp add: wide_generator_def new_engine_def same_size_def white_crop_def black_frame_def)

text \<open>
  C6. For an original and a transformed crop of the same size, the identity blend with lock
  strength 1 (\<open>original * 1 + transformed * (1 - 1)\<close>) is the original crop, and region
  overrides of strength 0 leave it the original crop, whatever the masks select. On any
  crop of that size, an override of strength 0 writes the original's pixel wherever the mask
  selects and leaves the other pixels as they were.
\<close>

theorem blend_identity:
  assumes "mat_wf original" and "mat_wf transformed" and "same_size original transformed"
    and "list_all (\<lambda>m. empty_mat m \<or> same_size original m) masks"
    and "mat_wf aged" and "same_size original aged"
    and "mat_wf region_mask" and "same_size original region_mask"
  shows "cv_addWeighted original 1 transformed (1 - 1) 0 = Inr original \<and>
         for_each masks (\<lambda>m a. blendRegion original a m 0) original = Inr original \<and>
         (\<exists>res. blendRegion original aged region_mask 0 = Inr res \<and>
            mat_wf res \<and> same_size res aged \<and>
            (\<forall>y<rows aged. \<forall>x<cols aged.
               mat_at res y x = (if 1 / 2 < uchar_to_rat (mat_at region_mask y x) / 255
                                 then mat_at original y x else mat_at aged y x)))"
proof -
  have "for_each masks (\<lambda>m a. blendRegion original a m 0) original = Inr original"
    by (rule for_each_fixed) (use assms(4) in \<open>simp add: blendRegion_identity list_all_iff\<close>)
  with addWeighted_identity[OF assms(1-3)] blendRegion_zero[OF assms(5-8)]
  show ?thesis by simp
qed

theorem blend_identity_witness:
  "mat_wf crop_a \<and> mat_wf crop_b \<and> same_size crop_a crop_b \<and>
   mat_wf left_mask \<and> same_size crop_a left_mask \<and>
   cv_addWeighted crop_a 1 crop_b (1 - 1) 0 = Inr crop_a \<and>
   for_each [left_mask, Mat_default] (\<lambda>m a. blendRegion crop_a a m 0) crop_a = Inr crop_a \<and>
   (\<exists>res. blendRegion crop_a crop_b left_mask 0 = Inr res \<and>
          mat_at res 0 0 = (10, 20, 30) \<and> mat_at res 0 1 = (1, 2, 3))"
proof -
  have wf: "mat_wf crop_a" "mat_wf crop_b" "mat_wf left_mask"
    by code_simp+
  have sz: "same_size crop_a crop_b" "same_size crop_a left_mask"
    by (simp_all add: same_size_def crop_a_def crop_b_def left_mask_def)
  have masks: "list_all (\<lambda>m. empty_mat m \<or> same_size crop_a m) [left_mask, Mat_default]"
    using sz(2) by (simp add: empty_mat_def Mat_default_def)
  have px: "mat_at left_mask 0 0 = 255" "mat_at left_mask 0 1 = 0"
    "mat_at crop_a 0 0 = (10, 20, 30)" "mat_at crop_b 0 1 = (1, 2, 3)"
    "mat_at left_mask 0 (Suc 0) = 0" "mat_at crop_b 0 (Suc 0) = (1, 2, 3)"
    "rows crop_b = 1" "cols crop_b = 2"
    by (simp_all add: left_mask_def crop_a_def crop_b_def mat_at_def)
  from blend_identity [OF wf(1) wf(2) sz(1) masks wf(2) sz(1) wf(3) sz(2)]
  obtain res where a: "cv_addWeighted crop_a 1 crop_b (1 - 1) 0 = Inr crop_a"
    and b: "for_each [left_mask, Mat_default] (\<lambda>m a. blendRegion crop_a a m 0) crop_a
              = Inr crop_a"
    and r: "blendRegion crop_a crop_b left_mask 0 = Inr res"
    and p: "\<forall>y<rows crop_b. \<forall>x<cols crop_b.
              mat_at res y x = (if 1 / 2 < uchar_to_rat (mat_at left_mask y x) / 255
                                then mat_at crop_a y x else mat_at crop_b y x)"
    by blast
  have q: "mat_at res 0 x = (if 1 / 2 < uchar_to_rat (mat_at left_mask 0 x) / 255
                              then mat_at crop_a 0 x else mat_at crop_b 0 x)" if "x < 2" for x
    using p that by (simp add: px)
  have "mat_at res 0 0 = (10, 20, 30)"
    using q [of 0] by (simp add: px uchar_to_rat_def)
  moreover have "mat_at res 0 1 = (1, 2, 3)"
    using q [of 1] by (simp add: px uchar_to_rat_def)
  ultimately show ?thesis
    using wf sz a b r by blast
qed

text \<open>
  C7. With hair aging disabled, the regional blend should hold the hair region, the pixels
  the parsing mask labels 13, near the original. \<open>applyRegionalBlending\<close> selects its
  "hair" region with label 1, which is skin in the vocabulary of face_parser.cpp; a pixel
  labelled 13 is in none of its regions. Here the identity lock is 0 and hair aging is
  disabled: the hair pixel of a black crop comes back as the network's white pixel, and
  the low strength 0.1 falls on the skin pixel instead.
\<close>

theorem hair_label_not_preserved:
  "\<not> enable_hair_aging example_controls \<and>
   generateAgedFace whitening_generator black_crop example_controls hair_label_mask
     = Inr white_crop \<and>
   generateAgedFace whitening_generator black_crop example_controls skin_label_mask
     = Inr \<lparr>rows = 1, cols = 1, elems = [[(25, 25, 25)]]\<rparr>"
proof -
  have "\<not> enable_hair_aging example_controls"
    by (simp add: example_controls_def)
  moreover have "generateAgedFace whitening_generator black_crop example_controls hair_label_mask
      = Inr white_crop"
    by code_simp
  moreover have "generateAgedFace whitening_generator black_crop example_controls skin_label_mask
      = Inr \<lparr>rows = 1, cols = 1, elems = [[(25, 25, 25)]]\<rparr>"
    by code_simp
  ultimately show ?thesis by simp
qed

theorem hair_label_not_preserved_witness:
  "generateAgedFace whitening_generator black_crop example_controls hair_label_mask
     \<noteq> Inr black_crop"
  using hair_label_not_preserved by (simp add: white_crop_def black_crop_def)

text \<open>
  The same on every input: \<open>applyRegionalBlending\<close> leaves a pixel labelled 13 as the
  identity blend made it, with hair aging enabled or not.
\<close>

lemma at_inRange:
  "mat_wf pm \<Longrightarrow> y < rows pm \<Longrightarrow> x < cols pm \<Longrightarrow>
     mat_at (cv_inRange pm lo hi) y x =
       (if lo \<le> uint (mat_at pm y x) \<and> uint (mat_at pm y x) \<le> hi then 255 else 0)"
  by (simp add: cv_inRange_def at_map)

lemma label_13_unselected:
  assumes "mat_wf pm" "y < rows pm" "x < cols pm" "mat_at pm y x = 13" "hi < 13"
  shows "\<not> 1 / 2 < mat_at (convertTo_norm (cv_inRange pm lo hi)) y x"
  using assms
  by (simp add: at_convertTo_norm wf_inRange size_inRange at_inRange uchar_to_rat_def)

lemma applyRegionalBlending_label_13:
  assumes run: "applyRegionalBlending original aged pm ctl = Inr res"
    and wf: "mat_wf aged" "mat_wf pm" and sz: "same_size pm aged"
    and yx: "y < rows aged" "x < cols aged" and hair: "mat_at pm y x = 13"
  shows "mat_at res y x = mat_at aged y x"
proof -
  have yx': "y < rows pm" "x < cols pm"
    using yx sz by (simp_all add: same_size_def)
  from run obtain aged1 aged2 where
    r1: "blendRegion original aged (cv_inRange pm 1 1)
           (if enable_hair_aging ctl then 8 / 10 else 1 / 10) = Inr aged1"
    and r2: "blendRegion original aged1 (cv_inRange pm 3 4) (3 / 10) = Inr aged2"
    and r3: "blendRegion original aged2 (cv_inRange pm 5 6) (4 / 10) = Inr res"
    by (auto simp: applyRegionalBlending_def Let_def split: sum.splits if_splits)
  have u1: "\<not> 1 / 2 < mat_at (convertTo_norm (cv_inRange pm 1 1)) y x"
    and u2: "\<not> 1 / 2 < mat_at (convertTo_norm (cv_inRange pm 3 4)) y x"
    and u3: "\<not> 1 / 2 < mat_at (convertTo_norm (cv_inRange pm 5 6)) y x"
    using label_13_unselected[OF wf(2) yx' hair] by simp_all
  from blendRegion_unselected[OF r1 wf(1) yx] u1
  have a1: "mat_wf aged1" "same_size aged1 aged" "mat_at aged1 y x = mat_at aged y x"
    by simp_all
  then have yx1: "y < rows aged1" "x < cols aged1"
    using yx by (simp_all add: same_size_def)
  from blendRegion_unselected[OF r2 a1(1) yx1] u2
  have a2: "mat_wf aged2" "same_size aged2 aged1" "mat_at aged2 y x = mat_at aged1 y x"
    by simp_all
  then have yx2: "y < rows aged2" "x < cols aged2"
    using yx1 by (simp_all add: same_size_def)
  from blendRegion_unselected[OF r3 a2(1) yx2] u3
  have "mat_at res y x = mat_at aged2 y x"
    by simp
  with a1(3) a2(3) show ?thesis by simp
qed

section \<open>The compositor and the hybrid mode\<close>

text \<open>
  C9. \<open>compositeFace\<close> with an empty face crop leaves the target frame as it is, for every
  frame and every face geometry.
\<close>

theorem compositeFace_empty_crop:
  "empty_mat processed_face \<Longrightarrow>
     compositeFace render target_frame processed_face face_info = target_frame"
  by (simp add: compositeFace_def)

theorem compositeFace_empty_crop_witness:
  "empty_mat (Mat_default :: ImageData) \<and>
   compositeFace paste_first_pixel black_frame Mat_default example_face = black_frame \<and>
   compositeFace paste_first_pixel black_frame white_crop example_face \<noteq> black_frame"
proof -
  have e: "empty_mat (Mat_default :: ImageData)"
    by (simp add: empty_mat_def Mat_default_def)
  have "composited_frame \<noteq> black_frame"
    by (simp add: composited_frame_def black_frame_def)
  with compositeFace_empty_crop [OF e, of paste_first_pixel black_frame example_face] e
  show ?thesis by (simp add: compositeFace_example)
qed

lemma process_face_hybrid:
  "mode ctx = HYBRID \<Longrightarrow> process_face eng ctx face out = compositor eng out Mat_default face"
  by (simp add: process_face_def)

lemma for_each_cong:
  "(\<And>i s. i \<in> set xs \<Longrightarrow> f i s = g i s) \<Longrightarrow> for_each xs f s = for_each xs g s"
  by (induction xs arbitrary: s) (auto split: sum.splits)

text \<open>
  C10. In hybrid mode, with at least one face, \<open>processFrame\<close> calls neither generator:
  its result is that of compositing a default-constructed (empty) image for each face in
  turn, and it does not depend on the feedforward generator or the diffusion editor.
\<close>

theorem hybrid_composites_empty_crops:
  assumes "initialized eng" and "mode ctx = HYBRID" and "frame_faces eng ctx \<noteq> []"
  shows "processFrame eng elapsed_ms ctx =
           try_catch
             (case for_each (frame_faces eng ctx)
                     (\<lambda>face output. compositor eng output Mat_default face)
                     (clone (input_frame ctx)) of
                Inl e \<Rightarrow> Inl e
              | Inr output \<Rightarrow>
                  Inr (ProcessingResult_default
                         \<lparr>output_frame := output, processed_faces := frame_faces eng ctx,
                          success := True,
                          metrics := [''processing_time_ms'' \<mapsto> of_int elapsed_ms,
                                      ''faces_processed'' \<mapsto> of_nat (length (frame_faces eng ctx))]\<rparr>))
             (\<lambda>msg. Inr (ProcessingResult_default
                           \<lparr>success := False, error_message := ''Processing failed: '' @ msg\<rparr>)) \<and>
         processFrame (eng\<lparr>feedforward_generator := gen, diffusion_editor := dif\<rparr>) elapsed_ms ctx =
           processFrame eng elapsed_ms ctx"
proof -
  have loop: "for_each faces (process_face e ctx) s =
              for_each faces (\<lambda>face output. compositor e output Mat_default face) s" for faces e s
    by (rule for_each_cong) (simp add: process_face_hybrid assms(2))
  have faces: "frame_faces (eng\<lparr>feedforward_generator := gen, diffusion_editor := dif\<rparr>) ctx =
               frame_faces eng ctx"
    by (simp add: frame_faces_def Let_def)
  show ?thesis
    using assms(1,3) by (simp add: processFrame_def Let_def loop faces)
qed

theorem hybrid_composites_empty_crops_witness:
  "initialized ready_engine \<and> mode hybrid_context = HYBRID \<and>
   frame_faces ready_engine hybrid_context \<noteq> [] \<and>
   processFrame ready_engine 5 hybrid_context = Inr hybrid_result \<and>
   output_frame hybrid_result = input_frame hybrid_context"
proof -
  have i: "initialized ready_engine" and m: "mode hybrid_context = HYBRID"
    and f: "frame_faces ready_engine hybrid_context = [example_face]"
    by (simp_all add: ready_engine_simps hybrid_context_def faces_context_def frame_faces_def)
  have f': "frame_faces ready_engine hybrid_context \<noteq> []"
    by (simp add: f)
  have c: "compositor ready_engine black_frame Mat_default example_face = Inr black_frame"
    by (simp add: ready_engine_simps new_engine_def compositeFace_def empty_mat_def Mat_default_def)
  have inp: "input_frame hybrid_context = black_frame"
    by (simp add: hybrid_context_def faces_context_def example_context_def)
  from hybrid_composites_empty_crops [OF i m f', of 5] i m f'
  show ?thesis
    by (simp add: f c inp clone_def hybrid_result_def)
qed

end
